theory Spec2Isabelle
  imports Complex_Main "HOL-Library.Word" "HOL-Library.Char_ord" "HOL-Library.List_Lexorder"
begin

section \<open>Strings\<close>

text \<open>
  JavaScript strings are modelled as \<open>string\<close>. Header names, URL paths (already
  percent-encoded by the URL class) and domain names are ASCII, so \<open>toLowerCase\<close> maps
  the letters A to Z and leaves every other character alone.
\<close>

definition lower_char :: "char \<Rightarrow> char" where
  "lower_char c =
     (case map_of (zip ''ABCDEFGHIJKLMNOPQRSTUVWXYZ'' ''abcdefghijklmnopqrstuvwxyz'') c of
        None \<Rightarrow> c
      | Some d \<Rightarrow> d)"

definition toLowerCase :: "string \<Rightarrow> string" where
  "toLowerCase s = map lower_char s"

text \<open>\<open>Array.prototype.join\<close> on strings.\<close>

fun join :: "string \<Rightarrow> string list \<Rightarrow> string" where
  "join sep [] = []"
| "join sep [x] = x"
| "join sep (x # y # ys) = x @ sep @ join sep (y # ys)"

text \<open>\<open>String.prototype.includes\<close>: the argument occurs as a contiguous substring.\<close>

fun includes_str :: "string \<Rightarrow> string \<Rightarrow> bool" where
  "includes_str [] sub = (sub = [])"
| "includes_str (x # xs) sub = (take (length sub) (x # xs) = sub \<or> includes_str xs sub)"

text \<open>\<open>String.prototype.endsWith\<close>, used to state what a domain pattern accepts.\<close>

definition endsWith :: "string \<Rightarrow> string \<Rightarrow> bool" where
  "endsWith s suf = (length suf \<le> length s \<and> drop (length s - length suf) s = suf)"

text \<open>\<open>String.prototype.split\<close> with a one-character separator.\<close>

fun split :: "char \<Rightarrow> string \<Rightarrow> string list" where
  "split sep [] = [] # []"
| "split sep (c # cs) =
     (if c = sep then [] # split sep cs
      else (case split sep cs of
              [] \<Rightarrow> [c] # []
            | w # ws \<Rightarrow> (c # w) # ws))"

definition isSpace :: "char \<Rightarrow> bool" where
  "isSpace c = (c \<in> set [CHR '' '', CHR 0x09, CHR 0x0A, CHR 0x0B, CHR 0x0C, CHR 0x0D])"

definition trim :: "string \<Rightarrow> string" where
  "trim s = rev (dropWhile isSpace (rev (dropWhile isSpace s)))"

section \<open>The Headers class\<close>

text \<open>
  A \<open>Headers\<close> object is its header list. Names are compared without regard to case;
  \<open>get\<close> joins the values of all headers of that name with a comma and a space;
  \<open>set\<close> overwrites the first header of that name and removes the others, or appends;
  \<open>delete\<close> removes every header of that name.
\<close>

type_synonym Headers = "(string \<times> string) list"

definition hmatch :: "string \<Rightarrow> string \<times> string \<Rightarrow> bool" where
  "hmatch name h = (toLowerCase (fst h) = toLowerCase name)"

definition hhas :: "string \<Rightarrow> Headers \<Rightarrow> bool" where
  "hhas name hs = list_ex (hmatch name) hs"

definition hget :: "string \<Rightarrow> Headers \<Rightarrow> string option" where
  "hget name hs =
     (if hhas name hs then Some (join '', '' (map snd (filter (hmatch name) hs))) else None)"

definition hdelete :: "string \<Rightarrow> Headers \<Rightarrow> Headers" where
  "hdelete name hs = filter (\<lambda>h. \<not> hmatch name h) hs"

definition happend :: "string \<Rightarrow> string \<Rightarrow> Headers \<Rightarrow> Headers" where
  "happend name v hs = hs @ [(name, v)]"

fun hreplace :: "string \<Rightarrow> string \<Rightarrow> Headers \<Rightarrow> Headers" where
  "hreplace name v [] = []"
| "hreplace name v (h # hs) =
     (if hmatch name h then (fst h, v) # hdelete name hs else h # hreplace name v hs)"

definition hset :: "string \<Rightarrow> string \<Rightarrow> Headers \<Rightarrow> Headers" where
  "hset name v hs = (if hhas name hs then hreplace name v hs else happend name v hs)"

text \<open>
  Iterating a \<open>Headers\<close> object yields one pair per distinct name, the name in lower
  case and the value as \<open>get\<close> returns it, sorted by name. (The runtime lists
  \<open>Set-Cookie\<close> headers one by one instead; nothing below depends on it.)
\<close>

definition hnames :: "Headers \<Rightarrow> string list" where
  "hnames hs = sort (remdups (map (\<lambda>h. toLowerCase (fst h)) hs))"

definition entries :: "Headers \<Rightarrow> (string \<times> string) list" where
  "entries hs =
     map (\<lambda>n. (n, join '', '' (map snd (filter (hmatch n) hs)))) (hnames hs)"

text \<open>\<open>new Headers(init)\<close> for another \<open>Headers\<close> object: every pair is appended.\<close>

definition Headers_copy :: "Headers \<Rightarrow> Headers" where
  "Headers_copy init = foldl (\<lambda>hs (k, v). happend k v hs) [] (entries init)"

section \<open>Values of the runtime\<close>

text \<open>The fields of a \<open>URL\<close> object that the worker reads.\<close>

record url =
  protocol :: string
  host :: string
  hostname :: string
  pathname :: string
  search :: string

text \<open>What \<open>JSON.parse\<close> returns.\<close>

datatype json =
    JNull
  | JBool bool
  | JNum rat
  | JStr string
  | JArr "json list"
  | JObj "(string \<times> json) list"

text \<open>
  Property access on a parsed value: only an object has the properties \<open>url\<close>,
  \<open>headers\<close>, \<open>token\<close> and \<open>origin\<close>; on a number, a string, a boolean or an array
  they are \<open>undefined\<close> (\<open>None\<close>). Access on \<open>null\<close> throws and is handled where it occurs.
\<close>

fun getProp :: "json \<Rightarrow> string \<Rightarrow> json option" where
  "getProp (JObj kv) k = map_of kv k"
| "getProp j k = None"

text \<open>Truthiness of a value that may be \<open>undefined\<close>.\<close>

fun jtruthy :: "json option \<Rightarrow> bool" where
  "jtruthy None = False"
| "jtruthy (Some JNull) = False"
| "jtruthy (Some (JBool b)) = b"
| "jtruthy (Some (JNum n)) = (n \<noteq> 0)"
| "jtruthy (Some (JStr s)) = (s \<noteq> [])"
| "jtruthy (Some (JArr xs)) = True"
| "jtruthy (Some (JObj kv)) = True"

text \<open>Truthiness of an environment variable or an optional string.\<close>

fun truthy :: "string option \<Rightarrow> bool" where
  "truthy None = False"
| "truthy (Some s) = (s \<noteq> [])"

text \<open>
  Conversion of a value to a string, as the \<open>URL\<close> constructor applies it to its
  argument; the rendering of a number is the runtime's.
\<close>

fun ToString :: "(rat \<Rightarrow> string) \<Rightarrow> json \<Rightarrow> string" where
  "ToString f JNull = ''null''"
| "ToString f (JBool b) = (if b then ''true'' else ''false'')"
| "ToString f (JNum n) = f n"
| "ToString f (JStr s) = s"
| "ToString f (JArr xs) = join '','' (map (\<lambda>x. if x = JNull then [] else ToString f x) xs)"
| "ToString f (JObj kv) = ''[object Object]''"

text \<open>A template literal or a string concatenation renders a missing value as \<open>undefined\<close>.\<close>

fun tpl :: "string option \<Rightarrow> string" where
  "tpl None = ''undefined''"
| "tpl (Some s) = s"

datatype body = BNull | BJson json | BText string

record response =
  resp_status :: nat
  resp_headers :: Headers
  resp_body :: body

record request =
  req_method :: string
  req_url :: url
  req_headers :: Headers
  req_text :: string

record env =
  CF_ZONE_ID :: "string option"
  CF_API_TOKEN :: "string option"
  CF_PURGE_TOKEN :: "string option"
  DISABLE_HTTPS_REDIRECT :: "string option"
  ALLOWED_ORIGINS :: "string option"

text \<open>The imported \<open>secret/aws-s3.json\<close>; a field the file lacks is \<open>undefined\<close>.\<close>

record s3Config =
  bucket :: "string option"
  endpoint :: "string option"
  region :: "string option"
  accessKeyId :: "string option"
  secretAccessKey :: "string option"

text \<open>The two outbound calls the worker can make, with what it passes to each.\<close>

datatype call =
    StorageFetch string string Headers "string option"
  | PurgeFetch string Headers json json json

text \<open>Exceptions, by the place that throws them.\<close>

datatype error =
    InvalidURL string
  | FetchFailed
  | DestructureNull
  | PropertyOfNull

text \<open>
  The services of the JavaScript runtime and of the network, which the worker calls and
  does not define: the \<open>URL\<close> class (\<open>None\<close> when the constructor throws), the
  \<open>RegExp\<close> constructor (a pattern is its \<open>test\<close> function; \<open>None\<close> for a syntax
  error), Web Crypto, the clock, \<open>JSON.parse\<close> (\<open>Inl\<close> the error message), the
  messages of exceptions, and the two remote services (\<open>None\<close> when the call fails).
\<close>

record runtime =
  URL_parse :: "string \<Rightarrow> url option"
  URL_toString :: "url \<Rightarrow> string"
  RegExp_new :: "string \<Rightarrow> (string \<Rightarrow> bool) option"
  digest :: "8 word list \<Rightarrow> 8 word list"
  hmac_sign :: "8 word list \<Rightarrow> 8 word list \<Rightarrow> 8 word list"
  Date_toISOString :: string
  JSON_parse :: "string \<Rightarrow> string + json"
  Number_toString :: "rat \<Rightarrow> string"
  error_message :: "error \<Rightarrow> string"
  fetch_storage :: "call \<Rightarrow> response option"
  fetch_purge :: "call \<Rightarrow> (nat \<times> json) option"

section \<open>Allowed CORS origins\<close>

text \<open>
  The worker turns each configured domain into the pattern source
  \<^verbatim>\<open>(^|\.)\<close> + the domain with every dot escaped + \<^verbatim>\<open>$\<close> and hands it to the
  \<open>RegExp\<close> constructor.
\<close>

definition backslash :: char where
  "backslash = CHR 0x5C"

definition escapeDots :: "string \<Rightarrow> string" where
  "escapeDots domain = concat (map (\<lambda>c. if c = CHR ''.'' then [backslash, CHR ''.''] else [c]) domain)"

definition patternSource :: "string \<Rightarrow> string" where
  "patternSource domain = ''(^|'' @ [backslash] @ ''.)'' @ escapeDots domain @ ''$''"

definition domains :: "string \<Rightarrow> string list" where
  "domains s = filter (\<lambda>d. d \<noteq> []) (map trim (split CHR '','' s))"

definition defaultAllowed :: "(string \<Rightarrow> bool) list" where
  "defaultAllowed = []"

definition allowedOrigins :: "runtime \<Rightarrow> env \<Rightarrow> (string \<Rightarrow> bool) list" where
  "allowedOrigins R e =
     (if truthy (ALLOWED_ORIGINS e)
      then (case those (map (\<lambda>domain. RegExp_new R (patternSource domain))
                            (domains (tpl (ALLOWED_ORIGINS e)))) of
              None \<Rightarrow> defaultAllowed
            | Some patterns \<Rightarrow> patterns)
      else defaultAllowed)"

text \<open>The domains that are configured: none when the variable is unset or empty.\<close>

definition configuredDomains :: "env \<Rightarrow> string list" where
  "configuredDomains e = (if truthy (ALLOWED_ORIGINS e) then domains (tpl (ALLOWED_ORIGINS e)) else [])"

definition isOriginAllowed :: "runtime \<Rightarrow> string option \<Rightarrow> (string \<Rightarrow> bool) list \<Rightarrow> bool" where
  "isOriginAllowed R origin allowedDomains =
     (if \<not> truthy origin then False
      else (case URL_parse R (tpl origin) of
              None \<Rightarrow> False
            | Some u \<Rightarrow> list_ex (\<lambda>pattern. pattern (hostname u)) allowedDomains))"

definition isSafeNoCorsRequest :: "request \<Rightarrow> string option \<Rightarrow> bool" where
  "isSafeNoCorsRequest req origin =
     (if origin \<noteq> None \<and> origin \<noteq> Some ''null'' then False
      else if req_method req \<noteq> ''GET'' \<and> req_method req \<noteq> ''HEAD'' \<and> req_method req \<noteq> ''OPTIONS''
      then False
      else True)"

subsection \<open>The patterns the worker generates, as regular expressions\<close>

text \<open>
  The fragment of the regular-expression language that a domain without syntax characters
  gives rise to: anchors, literal characters, sequence and alternation. \<open>rmatch r s i\<close>
  lists the positions where a match of \<open>r\<close> that starts at position \<open>i\<close> of \<open>s\<close> can
  end; \<open>rtest\<close> is \<open>RegExp.prototype.test\<close>, a search from every start position.
\<close>

datatype regex = Bol | Eol | Lit char | Eps | Seq regex regex | Alt regex regex

fun rmatch :: "regex \<Rightarrow> string \<Rightarrow> nat \<Rightarrow> nat list" where
  "rmatch Bol s i = (if i = 0 then [i] else [])"
| "rmatch Eol s i = (if i = length s then [i] else [])"
| "rmatch (Lit c) s i = (if i < length s \<and> s ! i = c then [Suc i] else [])"
| "rmatch Eps s i = [i]"
| "rmatch (Seq r1 r2) s i = concat (map (rmatch r2 s) (rmatch r1 s i))"
| "rmatch (Alt r1 r2) s i = rmatch r1 s i @ rmatch r2 s i"

definition rtest :: "regex \<Rightarrow> string \<Rightarrow> bool" where
  "rtest r s = list_ex (\<lambda>i. rmatch r s i \<noteq> []) [0..<Suc (length s)]"

definition syntaxChars :: "char list" where
  "syntaxChars = backslash # ''^$.*+?()[]{}|''"

fun parseLiterals :: "string \<Rightarrow> regex option" where
  "parseLiterals [] = Some Eps"
| "parseLiterals [c] = (if c \<in> set syntaxChars then None else Some (Seq (Lit c) Eps))"
| "parseLiterals (c # d # ds) =
     (if c = backslash
      then (if d = CHR ''.'' then map_option (Seq (Lit d)) (parseLiterals ds) else None)
      else if c \<in> set syntaxChars then None
      else map_option (Seq (Lit c)) (parseLiterals (d # ds)))"

definition parsePattern :: "string \<Rightarrow> regex option" where
  "parsePattern src =
     (if 7 \<le> length src \<and> take 6 src = ''(^|'' @ [backslash] @ ''.)'' \<and> last src = CHR ''$''
      then map_option (\<lambda>b. Seq (Alt Bol (Lit CHR ''.'')) (Seq b Eol))
             (parseLiterals (butlast (drop 6 src)))
      else None)"

text \<open>The expression that matches a string literally, character by character.\<close>

fun lits :: "string \<Rightarrow> regex" where
  "lits [] = Eps"
| "lits (c # cs) = Seq (Lit c) (lits cs)"

text \<open>A domain spelt without regular-expression syntax characters other than the dot.\<close>

definition plainDomain :: "string \<Rightarrow> bool" where
  "plainDomain d = list_all (\<lambda>c. c \<notin> set (removeAll CHR ''.'' syntaxChars)) d"

section \<open>MIME types and fonts\<close>

definition MIME_TYPES :: "(string \<times> string) list" where
  "MIME_TYPES =
     [(''.mp4'', ''video/mp4''),
      (''.webm'', ''video/webm''),
      (''.ogg'', ''video/ogg''),
      (''.avi'', ''video/x-msvideo''),
      (''.mov'', ''video/quicktime''),
      (''.mkv'', ''video/x-matroska''),
      (''.m4v'', ''video/x-m4v''),
      (''.flv'', ''video/x-flv''),
      (''.wmv'', ''video/x-ms-wmv''),
      (''.mpg'', ''video/mpeg''),
      (''.mpeg'', ''video/mpeg''),
      (''.3gp'', ''video/3gpp''),
      (''.mpd'', ''application/dash+xml''),
      (''.mp3'', ''audio/mpeg''),
      (''.wav'', ''audio/wav''),
      (''.m4a'', ''audio/mp4''),
      (''.aac'', ''audio/aac''),
      (''.flac'', ''audio/flac''),
      (''.opus'', ''audio/opus''),
      (''.weba'', ''audio/webm''),
      (''.oga'', ''audio/ogg''),
      (''.jpg'', ''image/jpeg''),
      (''.jpeg'', ''image/jpeg''),
      (''.png'', ''image/png''),
      (''.gif'', ''image/gif''),
      (''.webp'', ''image/webp''),
      (''.svg'', ''image/svg+xml''),
      (''.ico'', ''image/x-icon''),
      (''.bmp'', ''image/bmp''),
      (''.tiff'', ''image/tiff''),
      (''.tif'', ''image/tiff''),
      (''.avif'', ''image/avif''),
      (''.html'', ''text/html''),
      (''.htm'', ''text/html''),
      (''.css'', ''text/css''),
      (''.js'', ''application/javascript''),
      (''.mjs'', ''application/javascript''),
      (''.json'', ''application/json''),
      (''.xml'', ''application/xml''),
      (''.txt'', ''text/plain''),
      (''.woff'', ''font/woff''),
      (''.woff2'', ''font/woff2''),
      (''.ttf'', ''font/ttf''),
      (''.otf'', ''font/otf''),
      (''.eot'', ''application/vnd.ms-fontobject''),
      (''.pdf'', ''application/pdf''),
      (''.doc'', ''application/msword''),
      (''.docx'', ''application/vnd.openxmlformats-officedocument.wordprocessingml.document''),
      (''.xls'', ''application/vnd.ms-excel''),
      (''.xlsx'', ''application/vnd.openxmlformats-officedocument.spreadsheetml.sheet''),
      (''.ppt'', ''application/vnd.ms-powerpoint''),
      (''.pptx'', ''application/vnd.openxmlformats-officedocument.presentationml.presentation''),
      (''.zip'', ''application/zip''),
      (''.rar'', ''application/vnd.rar''),
      (''.tar'', ''application/x-tar''),
      (''.gz'', ''application/gzip''),
      (''.7z'', ''application/x-7z-compressed''),
      (''.wasm'', ''application/wasm''),
      (''.csv'', ''text/csv''),
      (''.md'', ''text/markdown''),
      (''.yaml'', ''text/yaml''),
      (''.yml'', ''text/yaml'')]"

text \<open>
  \<^verbatim>\<open>pathname.toLowerCase().match(/\.[^.]+$/)?.[0]\<close>: the last dot of the path and what
  follows it, when something follows it.
\<close>

definition extension :: "string \<Rightarrow> string option" where
  "extension p =
     (let s = toLowerCase p;
          tail = rev (takeWhile (\<lambda>c. c \<noteq> CHR ''.'') (rev s))
      in if CHR ''.'' \<in> set s \<and> tail \<noteq> [] then Some (CHR ''.'' # tail) else None)"

definition getMimeType :: "string \<Rightarrow> string option" where
  "getMimeType p = (case extension p of None \<Rightarrow> None | Some ext \<Rightarrow> map_of MIME_TYPES ext)"

definition isFontRequest :: "string \<Rightarrow> bool" where
  "isFontRequest p =
     (case extension p of
        None \<Rightarrow> False
      | Some ext \<Rightarrow> ext \<in> set [''.woff'', ''.woff2'', ''.ttf'', ''.otf'', ''.eot''])"

section \<open>Headers that break single-file purge\<close>

definition PURGE_BLOCKING_HEADERS :: "string list" where
  "PURGE_BLOCKING_HEADERS =
     [''x-forwarded-host'', ''x-host'', ''x-forwarded-scheme'', ''x-original-url'',
      ''x-rewrite-url'', ''forwarded'', ''origin'']"

section \<open>AWS Signature Version 4 signing\<close>

definition encode :: "string \<Rightarrow> 8 word list" where
  "encode message = map of_char message"

definition sha256 :: "runtime \<Rightarrow> string \<Rightarrow> 8 word list" where
  "sha256 R message = digest R (encode message)"

text \<open>
  The key is a string, which is encoded first, or a buffer. A message that is
  \<open>undefined\<close> is encoded as the empty string.
\<close>

datatype hkey = KeyString string | KeyBuffer "8 word list"

definition hmacSha256 :: "runtime \<Rightarrow> hkey \<Rightarrow> string option \<Rightarrow> 8 word list" where
  "hmacSha256 R key message =
     hmac_sign R (case key of KeyString k \<Rightarrow> encode k | KeyBuffer b \<Rightarrow> b)
       (case message of None \<Rightarrow> [] | Some m \<Rightarrow> encode m)"

definition hexDigit :: "nat \<Rightarrow> char" where
  "hexDigit n = ''0123456789abcdef'' ! n"

definition toHex :: "8 word list \<Rightarrow> string" where
  "toHex buffer = concat (map (\<lambda>b. [hexDigit (unat b div 16), hexDigit (unat b mod 16)]) buffer)"

definition getSignatureKey ::
  "runtime \<Rightarrow> string option \<Rightarrow> string \<Rightarrow> string option \<Rightarrow> string \<Rightarrow> 8 word list" where
  "getSignatureKey R key dateStamp regionName serviceName =
     (let kDate = hmacSha256 R (KeyString (''AWS4'' @ tpl key)) (Some dateStamp);
          kRegion = hmacSha256 R (KeyBuffer kDate) regionName;
          kService = hmacSha256 R (KeyBuffer kRegion) (Some serviceName);
          kSigning = hmacSha256 R (KeyBuffer kService) (Some ''aws4_request'')
      in kSigning)"

definition isDigit :: "char \<Rightarrow> bool" where
  "isDigit c = (c \<in> set ''0123456789'')"

text \<open>\<^verbatim>\<open>.replace(/[:-]|\.\d{3}/g, '')\<close> on the ISO rendering of the date.\<close>

function stripDate :: "string \<Rightarrow> string" where
  "stripDate [] = []"
| "stripDate (c # cs) =
     (if c = CHR '':'' \<or> c = CHR ''-'' then stripDate cs
      else if c = CHR ''.'' \<and> 3 \<le> length cs \<and> list_all isDigit (take 3 cs) then stripDate (drop 3 cs)
      else c # stripDate cs)"
  by pat_completeness auto
termination
  by (relation "measure length") auto

definition newline :: char where
  "newline = CHR 0x0A"

definition signAwsRequest ::
  "runtime \<Rightarrow> string \<Rightarrow> string \<Rightarrow> Headers \<Rightarrow> string \<Rightarrow> s3Config \<Rightarrow> error + (string \<times> string) list" where
  "signAwsRequest R method target headers payload config =
     (case URL_parse R target of
        None \<Rightarrow> Inl (InvalidURL target)
      | Some urlObj \<Rightarrow>
          (let service = ''s3'';
               canonicalUri = pathname urlObj;
               canonicalQuerystring = drop 1 (search urlObj);
               amzDate = stripDate (Date_toISOString R);
               dateStamp = take 8 amzDate;
               payloadHash = (if payload \<noteq> [] then toHex (sha256 R payload) else toHex (sha256 R []));
               canonicalHeaders =
                 ''host:'' @ hostname urlObj @ [newline] @ ''x-amz-content-sha256:'' @ payloadHash
                 @ [newline] @ ''x-amz-date:'' @ amzDate @ [newline];
               signedHeaders = ''host;x-amz-content-sha256;x-amz-date'';
               canonicalRequest =
                 method @ [newline] @ canonicalUri @ [newline] @ canonicalQuerystring @ [newline]
                 @ canonicalHeaders @ [newline] @ signedHeaders @ [newline] @ payloadHash;
               algorithm = ''AWS4-HMAC-SHA256'';
               credentialScope =
                 dateStamp @ ''/'' @ tpl (region config) @ ''/'' @ service @ ''/aws4_request'';
               canonicalRequestHash = toHex (sha256 R canonicalRequest);
               stringToSign =
                 algorithm @ [newline] @ amzDate @ [newline] @ credentialScope @ [newline]
                 @ canonicalRequestHash;
               signingKey = getSignatureKey R (secretAccessKey config) dateStamp (region config) service;
               signature = toHex (hmacSha256 R (KeyBuffer signingKey) (Some stringToSign));
               authorizationHeader =
                 algorithm @ '' Credential='' @ tpl (accessKeyId config) @ ''/'' @ credentialScope
                 @ '', SignedHeaders='' @ signedHeaders @ '', Signature='' @ signature
           in Inr [(''x-amz-date'', amzDate),
                   (''x-amz-content-sha256'', payloadHash),
                   (''Authorization'', authorizationHeader)]))"

section \<open>The worker\<close>

subsection \<open>CORS headers at the two places that set them\<close>

text \<open>The preflight branch (step 1.25) fills an empty \<open>Headers\<close> object.\<close>

definition preflightCors ::
  "runtime \<Rightarrow> (string \<Rightarrow> bool) list \<Rightarrow> request \<Rightarrow> string option \<Rightarrow> Headers" where
  "preflightCors R allowed req origin =
     (if isFontRequest (pathname (req_url req))
      then hset ''Access-Control-Max-Age'' ''86400''
            (hset ''Access-Control-Allow-Headers'' ''Content-Type, Range''
              (hset ''Access-Control-Allow-Methods'' ''GET, HEAD, OPTIONS''
                (hset ''Access-Control-Allow-Origin'' ''*'' [])))
      else if truthy origin \<and> isOriginAllowed R origin allowed
      then hset ''Access-Control-Max-Age'' ''86400''
            (hset ''Access-Control-Allow-Headers'' ''Content-Type, Range''
              (hset ''Access-Control-Allow-Methods'' ''GET, HEAD, OPTIONS''
                (hset ''Access-Control-Allow-Origin'' (tpl origin) [])))
      else if isSafeNoCorsRequest req origin
      then hset ''Access-Control-Max-Age'' ''86400''
            (hset ''Access-Control-Allow-Headers'' ''Content-Type, Range''
              (hset ''Access-Control-Allow-Methods'' ''GET, HEAD, OPTIONS''
                (hset ''Access-Control-Allow-Origin'' ''*'' [])))
      else [])"

text \<open>The final response (step 4) sets them on the headers copied from the origin.\<close>

definition finalCors ::
  "runtime \<Rightarrow> (string \<Rightarrow> bool) list \<Rightarrow> request \<Rightarrow> string option \<Rightarrow> Headers \<Rightarrow> Headers" where
  "finalCors R allowed req origin headers =
     (if isFontRequest (pathname (req_url req))
      then hset ''Access-Control-Allow-Headers'' ''Content-Type, Range''
            (hset ''Access-Control-Allow-Methods'' ''GET, HEAD, OPTIONS''
              (hset ''Access-Control-Allow-Origin'' ''*'' headers))
      else if truthy origin \<and> isOriginAllowed R origin allowed
      then hset ''Access-Control-Allow-Headers'' ''Content-Type, Range''
            (hset ''Access-Control-Allow-Methods'' ''GET, HEAD, OPTIONS''
              (hset ''Access-Control-Allow-Origin'' (tpl origin) headers))
      else if isSafeNoCorsRequest req origin
      then hset ''Access-Control-Allow-Headers'' ''Content-Type, Range''
            (hset ''Access-Control-Allow-Methods'' ''GET, HEAD, OPTIONS''
              (hset ''Access-Control-Allow-Origin'' ''*'' headers))
      else headers)"

subsection \<open>The request to storage (steps 2 to 3.5)\<close>

definition s3Url :: "s3Config \<Rightarrow> url \<Rightarrow> string" where
  "s3Url config u =
     ''https://'' @ tpl (bucket config) @ ''.'' @ tpl (endpoint config) @ pathname u @ search u"

definition forwardHeaders :: "Headers \<Rightarrow> Headers" where
  "forwardHeaders headers =
     foldl (\<lambda>newHeaders (key, v).
              if toLowerCase key \<in> set PURGE_BLOCKING_HEADERS then newHeaders
              else hset key v newHeaders)
           [] (entries headers)"

definition bodyless :: "request \<Rightarrow> bool" where
  "bodyless req = (req_method req = ''GET'' \<or> req_method req = ''HEAD'')"

definition storageCall :: "runtime \<Rightarrow> s3Config \<Rightarrow> request \<Rightarrow> error + call" where
  "storageCall R config req =
     (let target = s3Url config (req_url req);
          newHeaders = forwardHeaders (req_headers req);
          newHeaders = hset ''Host'' (tpl (bucket config) @ ''.'' @ tpl (endpoint config)) newHeaders;
          payload = (if bodyless req then [] else req_text req)
      in case signAwsRequest R (req_method req) target newHeaders payload config of
           Inl e \<Rightarrow> Inl e
         | Inr awsSignedHeaders \<Rightarrow>
             Inr (StorageFetch target (req_method req)
                    (foldl (\<lambda>hs (key, v). hset key v hs) newHeaders awsSignedHeaders)
                    (if bodyless req then None else Some payload)))"

subsection \<open>The response to the client (steps 4 and 5)\<close>

definition cacheControl :: "nat \<Rightarrow> string" where
  "cacheControl status =
     (if status = 404 \<or> status = 403
      then ''public, max-age=300, s-maxage=31536000, immutable''
      else ''public, max-age=60, s-maxage=31536000, must-revalidate'')"

definition responseHeaders ::
  "runtime \<Rightarrow> (string \<Rightarrow> bool) list \<Rightarrow> request \<Rightarrow> string option \<Rightarrow> response \<Rightarrow> Headers" where
  "responseHeaders R allowed req origin originResp =
     (let headers = Headers_copy (resp_headers originResp);
          mimeType = getMimeType (pathname (req_url req));
          headers = (if truthy mimeType then hset ''Content-Type'' (tpl mimeType) headers else headers);
          headers = hset ''Accept-Ranges'' ''bytes'' headers;
          headers = finalCors R allowed req origin headers;
          headers = hset ''Cache-Control'' (cacheControl (resp_status originResp)) headers;
          headers = foldl (\<lambda>hs blockedHeader. hdelete blockedHeader hs) headers PURGE_BLOCKING_HEADERS;
          headers = hdelete ''Vary'' headers;
          headers = hdelete ''Pragma'' headers;
          headers = hdelete ''Expires'' headers
      in headers)"

definition proxy ::
  "runtime \<Rightarrow> s3Config \<Rightarrow> (string \<Rightarrow> bool) list \<Rightarrow> request \<Rightarrow> string option
   \<Rightarrow> (error + response) \<times> call list" where
  "proxy R config allowed req origin =
     (case storageCall R config req of
        Inl e \<Rightarrow> (Inl e, [])
      | Inr c \<Rightarrow>
          (case fetch_storage R c of
             None \<Rightarrow> (Inl FetchFailed, [c])
           | Some originResp \<Rightarrow>
               (Inr \<lparr>resp_status = resp_status originResp,
                     resp_headers = responseHeaders R allowed req origin originResp,
                     resp_body = resp_body originResp\<rparr>,
                [c])))"

subsection \<open>Cache purge requests\<close>

definition jsonResponse :: "nat \<Rightarrow> json \<Rightarrow> response" where
  "jsonResponse status j =
     \<lparr>resp_status = status,
      resp_headers = [(''Content-Type'', ''application/json'')],
      resp_body = BJson j\<rparr>"

definition internalError :: "runtime \<Rightarrow> error \<Rightarrow> response" where
  "internalError R e =
     jsonResponse 500
       (JObj [(''error'', JStr ''Internal server error''), (''details'', JStr (error_message R e))])"

definition purgeCall :: "env \<Rightarrow> json \<Rightarrow> json \<Rightarrow> json \<Rightarrow> call" where
  "purgeCall e target origin requestHeaders =
     PurgeFetch (''https://api.cloudflare.com/client/v4/zones/'' @ tpl (CF_ZONE_ID e) @ ''/purge_cache'')
       [(''Content-Type'', ''application/json''),
        (''Authorization'', ''Bearer '' @ tpl (CF_API_TOKEN e))]
       target origin requestHeaders"

text \<open>
  The last argument of \<open>PurgeFetch\<close> is the object spread after \<open>origin\<close> into
  \<open>files[0].headers\<close> of the purge payload.
\<close>

definition handlePurgeRequest :: "runtime \<Rightarrow> env \<Rightarrow> request \<Rightarrow> response \<times> call list" where
  "handlePurgeRequest R e req =
     (if req_method req \<noteq> ''POST''
      then (jsonResponse 405 (JObj [(''error'', JStr ''Method not allowed. Use POST.'')]), [])
      else if \<not> includes_str (case hget ''content-type'' (req_headers req) of
                                None \<Rightarrow> [] | Some c \<Rightarrow> c) ''application/json''
      then (jsonResponse 400 (JObj [(''error'', JStr ''Invalid Content-Type. Use application/json.'')]), [])
      else if trim (req_text req) = []
      then (jsonResponse 400
              (JObj [(''error'', JStr ''Empty request body''),
                     (''message'', JStr ''Please send JSON data in the request body''),
                     (''example'', JStr (''{'' @ [CHR 0x22] @ ''url'' @ [CHR 0x22] @ '':'' @ [CHR 0x22]
                                          @ ''https://example.com/file.mp4'' @ [CHR 0x22] @ ''}''))]), [])
      else (case JSON_parse R (trim (req_text req)) of
              Inl msg \<Rightarrow>
                (jsonResponse 400
                   (JObj [(''error'', JStr ''Invalid JSON in request body''),
                          (''details'', JStr msg),
                          (''receivedText'', JStr (take 200 (trim (req_text req)))),
                          (''hint'', JStr (''Ensure valid JSON format: {'' @ [CHR 0x22] @ ''url''
                                           @ [CHR 0x22] @ '':'' @ [CHR 0x22] @ ''https://...''
                                           @ [CHR 0x22] @ ''}''))]), [])
            | Inr body \<Rightarrow>
                if body = JNull then (internalError R DestructureNull, [])
                else
                  (let target = getProp body ''url'';
                       requestHeaders = (case getProp body ''headers'' of None \<Rightarrow> JObj [] | Some h \<Rightarrow> h);
                       token = getProp body ''token''
                   in if \<not> truthy (CF_ZONE_ID e)
                      then (jsonResponse 500
                              (JObj [(''error'', JStr ''Missing CF_ZONE_ID environment variable'')]), [])
                      else if \<not> truthy (CF_API_TOKEN e)
                      then (jsonResponse 500
                              (JObj [(''error'', JStr ''Missing CF_API_TOKEN environment variable'')]), [])
                      else if truthy (CF_PURGE_TOKEN e) \<and> token \<noteq> Some (JStr (tpl (CF_PURGE_TOKEN e)))
                      then (jsonResponse 401 (JObj [(''error'', JStr ''Unauthorized'')]), [])
                      else (case (if jtruthy target then target else None) of
                              None \<Rightarrow> (jsonResponse 400 (JObj [(''error'', JStr ''Missing 'url' parameter'')]), [])
                            | Some t \<Rightarrow>
                          (case URL_parse R (ToString (Number_toString R) t) of
                              None \<Rightarrow> (jsonResponse 400 (JObj [(''error'', JStr ''Invalid URL format'')]), [])
                            | Some urlObj \<Rightarrow>
                                if requestHeaders = JNull then (internalError R PropertyOfNull, [])
                                else
                                  (let origin =
                                         (if jtruthy (getProp requestHeaders ''origin'')
                                          then (case getProp requestHeaders ''origin'' of
                                                  None \<Rightarrow> JStr (protocol urlObj @ ''//'' @ host urlObj)
                                                | Some v \<Rightarrow> v)
                                          else JStr (protocol urlObj @ ''//'' @ host urlObj));
                                       c = purgeCall e t origin requestHeaders
                                   in case fetch_purge R c of
                                        None \<Rightarrow> (internalError R FetchFailed, [c])
                                      | Some (status, result) \<Rightarrow>
                                          if \<not> (200 \<le> status \<and> status \<le> 299)
                                          then (jsonResponse status result, [c])
                                          else (jsonResponse 200
                                                  (JObj [(''success'', JBool True),
                                                         (''message'', JStr ''Cache purge initiated successfully''),
                                                         (''url'', t),
                                                         (''result'', result)]), [c])))))))"

subsection \<open>Worker entry\<close>

definition redirect :: "string \<Rightarrow> nat \<Rightarrow> response" where
  "redirect location status =
     \<lparr>resp_status = status, resp_headers = [(''Location'', location)], resp_body = BNull\<rparr>"

definition fetch :: "runtime \<Rightarrow> env \<Rightarrow> s3Config \<Rightarrow> request \<Rightarrow> (error + response) \<times> call list" where
  "fetch R e config req =
     (let u = req_url req;
          origin = hget ''Origin'' (req_headers req);
          allowed = allowedOrigins R e
      in if protocol u = ''http:'' \<and> \<not> truthy (DISABLE_HTTPS_REDIRECT e)
         then (Inr (redirect (URL_toString R (u\<lparr>protocol := ''https:''\<rparr>)) 301), [])
         else if req_method req = ''OPTIONS''
         then (Inr \<lparr>resp_status = 204,
                     resp_headers = preflightCors R allowed req origin,
                     resp_body = BNull\<rparr>, [])
         else if req_method req = ''POST'' \<and> pathname u = ''/.purge''
         then (case handlePurgeRequest R e req of (resp, calls) \<Rightarrow> (Inr resp, calls))
         else proxy R config allowed req origin)"

section \<open>Observing a run\<close>

text \<open>
  A request is proxied to storage when it is not redirected to HTTPS, is not a preflight
  and is not a purge request.
\<close>

definition redirected :: "env \<Rightarrow> request \<Rightarrow> bool" where
  "redirected e req = (protocol (req_url req) = ''http:'' \<and> \<not> truthy (DISABLE_HTTPS_REDIRECT e))"

definition proxied :: "env \<Rightarrow> request \<Rightarrow> bool" where
  "proxied e req =
     (\<not> redirected e req \<and> req_method req \<noteq> ''OPTIONS''
      \<and> \<not> (req_method req = ''POST'' \<and> pathname (req_url req) = ''/.purge''))"

definition responseStatus :: "(error + response) \<times> call list \<Rightarrow> nat option" where
  "responseStatus run = (case fst run of Inl e \<Rightarrow> None | Inr resp \<Rightarrow> Some (resp_status resp))"

definition responseHeader :: "string \<Rightarrow> (error + response) \<times> call list \<Rightarrow> string option" where
  "responseHeader name run = (case fst run of Inl e \<Rightarrow> None | Inr resp \<Rightarrow> hget name (resp_headers resp))"

definition callHeaders :: "call \<Rightarrow> Headers" where
  "callHeaders c = (case c of StorageFetch t m hs b \<Rightarrow> hs | PurgeFetch t hs u origin rh \<Rightarrow> hs)"

text \<open>
  The decision table of the Origin Authorization Engine, in the words of the specification:
  the value granted for \<open>Access-Control-Allow-Origin\<close>, or \<open>None\<close> when nothing is
  granted. It is compared below with what the two branches of the worker set.
\<close>

definition corsTable ::
  "runtime \<Rightarrow> (string \<Rightarrow> bool) list \<Rightarrow> string \<Rightarrow> string option \<Rightarrow> string \<Rightarrow> string option" where
  "corsTable R allowed path origin method =
     (if isFontRequest path then Some ''*''
      else if origin \<noteq> None \<and> isOriginAllowed R origin allowed then origin
      else if (origin = None \<or> origin = Some ''null'') \<and> method \<in> set [''GET'', ''HEAD'', ''OPTIONS'']
      then Some ''*''
      else None)"



text \<open>No header of the list bears a purge-blocking name, in whatever case it is spelt.\<close>

definition noBlocked :: "Headers \<Rightarrow> bool" where
  "noBlocked hs = list_all (\<lambda>h. toLowerCase (fst h) \<notin> set PURGE_BLOCKING_HEADERS) hs"

text \<open>The values of the headers of one name, in order.\<close>

definition hvalues :: "string \<Rightarrow> Headers \<Rightarrow> string list" where
  "hvalues name hs = map snd (filter (hmatch name) hs)"

subsection \<open>A runtime to run the worker on examples\<close>

text \<open>
  URLs are parsed by table, patterns by the fragment above; the digest and the MAC return
  fixed two-byte buffers, their values play no part in what is examined. Storage answers 404 with
  the CORS header of its own, the purge API answers 200.
\<close>

definition exampleUrls :: "(string \<times> url) list" where
  "exampleUrls =
     [(''https://cdn.example/a.js'',
       \<lparr>protocol = ''https:'', host = ''cdn.example'', hostname = ''cdn.example'',
        pathname = ''/a.js'', search = []\<rparr>),
      (''https://app.allowed.example'',
       \<lparr>protocol = ''https:'', host = ''app.allowed.example'', hostname = ''app.allowed.example'',
        pathname = ''/'', search = []\<rparr>),
      (''https://evilallowed.example'',
       \<lparr>protocol = ''https:'', host = ''evilallowed.example'', hostname = ''evilallowed.example'',
        pathname = ''/'', search = []\<rparr>),
      (''https://assets.s3.example.com/file.bin'',
       \<lparr>protocol = ''https:'', host = ''assets.s3.example.com'', hostname = ''assets.s3.example.com'',
        pathname = ''/file.bin'', search = []\<rparr>),
      (''https://assets.s3.example.com/font.woff'',
       \<lparr>protocol = ''https:'', host = ''assets.s3.example.com'', hostname = ''assets.s3.example.com'',
        pathname = ''/font.woff'', search = []\<rparr>),
      (''https://assets.s3.example.com/.purge'',
       \<lparr>protocol = ''https:'', host = ''assets.s3.example.com'', hostname = ''assets.s3.example.com'',
        pathname = ''/.purge'', search = []\<rparr>)]"

definition textArrayUrl :: string where
  \<open>textArrayUrl = ''{"url":["https://cdn.example/a.js"]}''\<close>

definition textUrlToken :: string where
  \<open>textUrlToken = ''{"url":"https://cdn.example/a.js","token":"guess"}''\<close>

definition textTokenOnly :: string where
  \<open>textTokenOnly = ''{"token":"guess"}''\<close>

definition exampleJson :: "(string \<times> json) list" where
  "exampleJson =
     [(textArrayUrl, JObj [(''url'', JArr [JStr ''https://cdn.example/a.js''])]),
      (textUrlToken, JObj [(''url'', JStr ''https://cdn.example/a.js''), (''token'', JStr ''guess'')]),
      (textTokenOnly, JObj [(''token'', JStr ''guess'')])]"

definition exampleOriginResp :: response where
  "exampleOriginResp =
     \<lparr>resp_status = 404,
      resp_headers = [(''Access-Control-Allow-Origin'', ''*''), (''Origin'', ''x''),
                      (''Cache-Control'', ''no-store'')],
      resp_body = BText ''NoSuchKey''\<rparr>"

definition exampleRuntime :: runtime where
  "exampleRuntime =
     \<lparr>URL_parse = map_of exampleUrls,
      URL_toString = (\<lambda>u. protocol u @ ''//'' @ host u @ pathname u @ search u),
      RegExp_new = (\<lambda>src. map_option rtest (parsePattern src)),
      digest = (\<lambda>buffer. [0xE3, 0xB0]),
      hmac_sign = (\<lambda>key buffer. [0x5D, 0x67]),
      Date_toISOString = ''2024-01-02T03:04:05.678Z'',
      JSON_parse = (\<lambda>text. case map_of exampleJson text of
                             None \<Rightarrow> Inl ''Unexpected token''
                           | Some j \<Rightarrow> Inr j),
      Number_toString = (\<lambda>n. ''0''),
      error_message = (\<lambda>e. ''error''),
      fetch_storage = (\<lambda>c. Some exampleOriginResp),
      fetch_purge = (\<lambda>c. Some (200, JObj [(''success'', JBool True)]))\<rparr>"

definition exampleEnv :: env where
  "exampleEnv =
     \<lparr>CF_ZONE_ID = Some ''zone'', CF_API_TOKEN = Some ''api-token'', CF_PURGE_TOKEN = None,
      DISABLE_HTTPS_REDIRECT = None, ALLOWED_ORIGINS = Some ''allowed.example''\<rparr>"

definition exampleConfig :: s3Config where
  "exampleConfig =
     \<lparr>bucket = Some ''assets'', endpoint = Some ''s3.example.com'', region = Some ''us-east-1'',
      accessKeyId = Some ''AKIDEXAMPLE'', secretAccessKey = Some ''secret''\<rparr>"

definition exampleRequest :: "string \<Rightarrow> string \<Rightarrow> Headers \<Rightarrow> string \<Rightarrow> request" where
  "exampleRequest method path headers text =
     \<lparr>req_method = method,
      req_url = \<lparr>protocol = ''https:'', host = ''cdn.example'', hostname = ''cdn.example'',
                 pathname = path, search = []\<rparr>,
      req_headers = headers,
      req_text = text\<rparr>"

definition exampleGet :: request where
  "exampleGet =
     exampleRequest ''GET'' ''/file.bin''
       [(''Origin'', ''https://evilallowed.example''), (''Accept'', ''*/*''),
        (''X-Forwarded-Host'', ''cdn.example'')] []"

definition exampleAllowedGet :: request where
  "exampleAllowedGet =
     exampleRequest ''GET'' ''/file.bin''
       [(''Origin'', ''https://app.allowed.example''), (''Accept'', ''*/*'')] []"



definition exampleCall :: call where
  "exampleCall =
     StorageFetch ''https://assets.s3.example.com/file.bin'' ''GET''
       [(''accept'', ''*/*''), (''Host'', ''assets.s3.example.com''),
        (''x-amz-date'', ''20240102T030405Z''), (''x-amz-content-sha256'', ''e3b0''),
        (''Authorization'',
         ''AWS4-HMAC-SHA256 Credential=AKIDEXAMPLE/20240102/us-east-1/s3/aws4_request, SignedHeaders=host;x-amz-content-sha256;x-amz-date, Signature=5d67'')]
       None"

section \<open>Properties of the Headers operations\<close>

lemma lower_char_idem: "lower_char (lower_char c) = lower_char c"
  by (auto simp: lower_char_def split: if_splits option.splits)

lemma toLowerCase_idem: "toLowerCase (toLowerCase s) = toLowerCase s"
  by (simp add: toLowerCase_def lower_char_idem)

lemma hhas_hvalues: "hhas n hs \<longleftrightarrow> hvalues n hs \<noteq> []"
  by (induction hs) (auto simp: hhas_def hvalues_def)

lemma hget_hvalues:
  "hget n hs = (if hvalues n hs = [] then None else Some (join '', '' (hvalues n hs)))"
  by (simp add: hget_def hhas_hvalues hvalues_def)

lemma hmatch_cong: "toLowerCase n = toLowerCase m \<Longrightarrow> hmatch n = hmatch m"
  by (auto simp: hmatch_def fun_eq_iff)

lemma hvalues_hdelete:
  "hvalues n (hdelete m hs) = (if toLowerCase n = toLowerCase m then [] else hvalues n hs)"
proof (cases "toLowerCase n = toLowerCase m")
  case True
  then show ?thesis by (simp add: hvalues_def hdelete_def hmatch_cong [OF True])
next
  case False
  have "filter (hmatch n) (filter (\<lambda>h. \<not> hmatch m h) hs) = filter (hmatch n) hs"
    using False by (induction hs) (auto simp: hmatch_def)
  with False show ?thesis by (simp add: hvalues_def hdelete_def)
qed

lemma hvalues_hreplace_other:
  "toLowerCase n \<noteq> toLowerCase m \<Longrightarrow> hvalues n (hreplace m v hs) = hvalues n hs"
proof (induction hs)
  case Nil
  then show ?case by simp
next
  case (Cons h hs)
  show ?case
  proof (cases "hmatch m h")
    case True
    then have "\<not> hmatch n h" "\<not> hmatch n (fst h, v)"
      using Cons.prems by (auto simp: hmatch_def)
    moreover have "hvalues n (hdelete m hs) = hvalues n hs"
      using Cons.prems by (simp add: hvalues_hdelete)
    ultimately show ?thesis using True by (simp add: hvalues_def)
  next
    case False
    then show ?thesis using Cons by (simp add: hvalues_def)
  qed
qed

lemma hvalues_hreplace_same:
  "hhas m hs \<Longrightarrow> hvalues m (hreplace m v hs) = [v]"
proof (induction hs)
  case Nil
  then show ?case by (simp add: hhas_def)
next
  case (Cons h hs)
  show ?case
  proof (cases "hmatch m h")
    case True
    then have "hmatch m (fst h, v)" by (simp add: hmatch_def)
    moreover have "hvalues m (hdelete m hs) = []" by (simp add: hvalues_hdelete)
    ultimately show ?thesis using True by (simp add: hvalues_def)
  next
    case False
    then have "hhas m hs" using Cons.prems by (simp add: hhas_def)
    then show ?thesis using False Cons.IH by (simp add: hvalues_def)
  qed
qed

lemma hvalues_hset:
  "hvalues n (hset m v hs) = (if toLowerCase n = toLowerCase m then [v] else hvalues n hs)"
proof (cases "toLowerCase n = toLowerCase m")
  case True
  have eq: "hvalues n = hvalues m"
    by (simp add: hvalues_def fun_eq_iff hmatch_cong [OF True])
  show ?thesis
  proof (cases "hhas m hs")
    case h: True
    then show ?thesis using True by (simp add: eq hset_def hvalues_hreplace_same)
  next
    case h: False
    then have "hvalues m hs = []" by (simp add: hhas_hvalues)
    then show ?thesis using True h
      by (simp add: eq hset_def happend_def) (simp add: hvalues_def hmatch_def)
  qed
next
  case False
  then have "\<not> hmatch n (m, v)" by (simp add: hmatch_def)
  then show ?thesis using False
    by (simp add: hset_def happend_def hvalues_hreplace_other) (simp add: hvalues_def)
qed

lemma hget_hset:
  "hget n (hset m v hs) = (if toLowerCase n = toLowerCase m then Some v else hget n hs)"
  by (simp add: hget_hvalues hvalues_hset)

lemma hget_hdelete:
  "hget n (hdelete m hs) = (if toLowerCase n = toLowerCase m then None else hget n hs)"
  by (simp add: hget_hvalues hvalues_hdelete)

lemma hget_Nil: "hget n [] = None"
  by (simp add: hget_def hhas_def)

section \<open>The proxy pipeline\<close>

lemma fetch_proxied:
  "proxied e req \<Longrightarrow>
   fetch R e config req = proxy R config (allowedOrigins R e) req (hget ''Origin'' (req_headers req))"
  by (auto simp: fetch_def proxied_def redirected_def Let_def)

lemma proxy_response:
  assumes "storageCall R config req = Inr c" and "fetch_storage R c = Some originResp"
  shows "proxy R config allowed req origin =
           (Inr \<lparr>resp_status = resp_status originResp,
                 resp_headers = responseHeaders R allowed req origin originResp,
                 resp_body = resp_body originResp\<rparr>, [c])"
  using assms by (simp add: proxy_def)

lemma lower_names:
  "toLowerCase ''Cache-Control'' = ''cache-control''"
  "toLowerCase ''Vary'' = ''vary''"
  "toLowerCase ''Pragma'' = ''pragma''"
  "toLowerCase ''Expires'' = ''expires''"
  "toLowerCase ''Content-Type'' = ''content-type''"
  "toLowerCase ''Accept-Ranges'' = ''accept-ranges''"
  "toLowerCase ''Access-Control-Allow-Origin'' = ''access-control-allow-origin''"
  "toLowerCase ''Access-Control-Allow-Methods'' = ''access-control-allow-methods''"
  "toLowerCase ''Access-Control-Allow-Headers'' = ''access-control-allow-headers''"
  "toLowerCase ''Access-Control-Max-Age'' = ''access-control-max-age''"
  "toLowerCase ''Host'' = ''host''"
  "toLowerCase ''Authorization'' = ''authorization''"
  "toLowerCase ''x-amz-date'' = ''x-amz-date''"
  "toLowerCase ''x-amz-content-sha256'' = ''x-amz-content-sha256''"
  "toLowerCase ''x-forwarded-host'' = ''x-forwarded-host''"
  "toLowerCase ''x-host'' = ''x-host''"
  "toLowerCase ''x-forwarded-scheme'' = ''x-forwarded-scheme''"
  "toLowerCase ''x-original-url'' = ''x-original-url''"
  "toLowerCase ''x-rewrite-url'' = ''x-rewrite-url''"
  "toLowerCase ''forwarded'' = ''forwarded''"
  "toLowerCase ''origin'' = ''origin''"
  by (simp_all add: toLowerCase_def lower_char_def)

lemma hget_cache_control:
  "hget ''Cache-Control'' (responseHeaders R allowed req origin originResp)
     = Some (cacheControl (resp_status originResp))"
  by (simp add: responseHeaders_def Let_def PURGE_BLOCKING_HEADERS_def hget_hdelete hget_hset lower_names)

lemma example_proxied: "proxied exampleEnv exampleGet"
  by code_simp

lemma example_storageCall: "storageCall exampleRuntime exampleConfig exampleGet = Inr exampleCall"
  by code_simp

lemma example_fetch_storage: "fetch_storage exampleRuntime exampleCall = Some exampleOriginResp"
  by (simp add: exampleRuntime_def)

section \<open>Cache policy of proxied responses\<close>

text \<open>
  Claim C9. For every proxied response, the Cache-Control header of the response to the
  client is exactly \<open>public, max-age=300, s-maxage=31536000, immutable\<close> when the status
  of the origin response is 404 or 403 and exactly
  \<open>public, max-age=60, s-maxage=31536000, must-revalidate\<close> for every other status,
  whatever Cache-Control the origin sent; the status itself is passed on.
\<close>

theorem cache_control_by_status:
  assumes "proxied e req" and "storageCall R config req = Inr c"
    and "fetch_storage R c = Some originResp"
  shows "responseStatus (fetch R e config req) = Some (resp_status originResp) \<and>
         responseHeader ''Cache-Control'' (fetch R e config req) =
           Some (if resp_status originResp = 404 \<or> resp_status originResp = 403
                 then ''public, max-age=300, s-maxage=31536000, immutable''
                 else ''public, max-age=60, s-maxage=31536000, must-revalidate'')"
  using assms
  by (simp add: fetch_proxied proxy_response responseStatus_def responseHeader_def
        hget_cache_control cacheControl_def)

text \<open>
  The example origin answers 404 with \<open>Cache-Control: no-store\<close>; the client receives
  the long-lived negative policy.
\<close>

theorem cache_control_by_status_witness:
  "proxied exampleEnv exampleGet \<and>
   storageCall exampleRuntime exampleConfig exampleGet = Inr exampleCall \<and>
   fetch_storage exampleRuntime exampleCall = Some exampleOriginResp \<and>
   hget ''Cache-Control'' (resp_headers exampleOriginResp) = Some ''no-store'' \<and>
   responseStatus (fetch exampleRuntime exampleEnv exampleConfig exampleGet) = Some 404 \<and>
   responseHeader ''Cache-Control'' (fetch exampleRuntime exampleEnv exampleConfig exampleGet) =
     Some ''public, max-age=300, s-maxage=31536000, immutable''"
proof -
  have "hget ''Cache-Control'' (resp_headers exampleOriginResp) = Some ''no-store''"
    by code_simp
  moreover have "resp_status exampleOriginResp = 404"
    by (simp add: exampleOriginResp_def)
  ultimately show ?thesis
    using cache_control_by_status [OF example_proxied example_storageCall example_fetch_storage]
      example_proxied example_storageCall example_fetch_storage
    by simp
qed

section \<open>Preflight requests\<close>

text \<open>
  Claim C10. For every OPTIONS request that is not redirected to HTTPS, the worker answers
  with status 204 and a null body, whether or not the preflight branch granted any CORS
  header, and it calls neither storage nor the purge API.
\<close>

theorem preflight_response:
  assumes "\<not> redirected e req" and "req_method req = ''OPTIONS''"
  shows "fetch R e config req =
           (Inr \<lparr>resp_status = 204,
                 resp_headers = preflightCors R (allowedOrigins R e) req (hget ''Origin'' (req_headers req)),
                 resp_body = BNull\<rparr>, [])"
  using assms by (auto simp: fetch_def redirected_def Let_def)

text \<open>A preflight from an origin that is not allowed: 204, no CORS header, no call.\<close>

theorem preflight_response_witness:
  "\<not> redirected exampleEnv (exampleGet\<lparr>req_method := ''OPTIONS''\<rparr>) \<and>
   req_method (exampleGet\<lparr>req_method := ''OPTIONS''\<rparr>) = ''OPTIONS'' \<and>
   fetch exampleRuntime exampleEnv exampleConfig (exampleGet\<lparr>req_method := ''OPTIONS''\<rparr>) =
     (Inr \<lparr>resp_status = 204, resp_headers = [], resp_body = BNull\<rparr>, [])"
proof -
  have r: "\<not> redirected exampleEnv (exampleGet\<lparr>req_method := ''OPTIONS''\<rparr>)"
    by code_simp
  have m: "req_method (exampleGet\<lparr>req_method := ''OPTIONS''\<rparr>) = ''OPTIONS''"
    by simp
  have "preflightCors exampleRuntime (allowedOrigins exampleRuntime exampleEnv)
          (exampleGet\<lparr>req_method := ''OPTIONS''\<rparr>)
          (hget ''Origin'' (req_headers (exampleGet\<lparr>req_method := ''OPTIONS''\<rparr>))) = []"
    by code_simp
  then show ?thesis
    using preflight_response [OF r m, of exampleRuntime exampleConfig] r m by simp
qed

section \<open>Purge-blocking headers\<close>

lemma in_hdelete: "h \<in> set (hdelete m hs) \<longleftrightarrow> h \<in> set hs \<and> toLowerCase (fst h) \<noteq> toLowerCase m"
  by (auto simp: hdelete_def hmatch_def)

lemma names_hreplace: "fst ` set (hreplace m v hs) \<subseteq> fst ` set hs"
proof (induction hs)
  case Nil
  then show ?case by simp
next
  case (Cons h hs)
  have "fst ` set (hdelete m hs) \<subseteq> fst ` set hs"
    by (auto simp: in_hdelete)
  with Cons show ?case by auto
qed

lemma names_hset: "fst ` set (hset m v hs) \<subseteq> insert m (fst ` set hs)"
  using names_hreplace [of m v hs] by (auto simp: hset_def happend_def)

lemma noBlocked_iff:
  "noBlocked hs \<longleftrightarrow> (\<forall>h \<in> set hs. toLowerCase (fst h) \<notin> set PURGE_BLOCKING_HEADERS)"
  by (simp add: noBlocked_def list_all_iff)

lemma noBlocked_hset:
  assumes "noBlocked hs" and "toLowerCase m \<notin> set PURGE_BLOCKING_HEADERS"
  shows "noBlocked (hset m v hs)"
proof -
  have "toLowerCase (fst h) \<notin> set PURGE_BLOCKING_HEADERS" if "h \<in> set (hset m v hs)" for h
  proof -
    from that have "fst h \<in> insert m (fst ` set hs)"
      using names_hset [of m v hs] by (meson image_eqI subsetD)
    then consider "fst h = m" | g where "g \<in> set hs" and "fst h = fst g"
      by auto
    then show ?thesis
    proof cases
      case 1
      then show ?thesis using assms(2) by simp
    next
      case 2
      then show ?thesis using assms(1) by (simp add: noBlocked_iff)
    qed
  qed
  then show ?thesis by (simp add: noBlocked_iff)
qed

lemma noBlocked_forward_step:
  "noBlocked acc \<Longrightarrow>
   noBlocked (foldl (\<lambda>newHeaders (key, v).
                if toLowerCase key \<in> set PURGE_BLOCKING_HEADERS then newHeaders
                else hset key v newHeaders) acc xs)"
proof (induction xs arbitrary: acc)
  case Nil
  then show ?case by simp
next
  case (Cons x xs)
  obtain key v where x: "x = (key, v)" by (cases x)
  let ?acc = "if toLowerCase key \<in> set PURGE_BLOCKING_HEADERS then acc else hset key v acc"
  have "noBlocked ?acc"
    using Cons.prems noBlocked_hset [of acc key v] by simp
  from Cons.IH [OF this] show ?case by (simp add: x)
qed

lemma noBlocked_forwardHeaders: "noBlocked (forwardHeaders headers)"
  unfolding forwardHeaders_def by (rule noBlocked_forward_step) (simp add: noBlocked_def)



lemma signAwsRequest_Inr:
  assumes "signAwsRequest R method target headers payload config = Inr aws"
  shows "\<exists>a b d. aws = [(''x-amz-date'', a), (''x-amz-content-sha256'', b), (''Authorization'', d)]"
proof (cases "URL_parse R target")
  case None
  then show ?thesis using assms by (simp add: signAwsRequest_def)
next
  case (Some u)
  show ?thesis
    using assms unfolding signAwsRequest_def Some option.case Let_def
    by (metis sum.inject(2))
qed

lemma not_blocked_names:
  "toLowerCase ''Host'' \<notin> set PURGE_BLOCKING_HEADERS"
  "toLowerCase ''x-amz-date'' \<notin> set PURGE_BLOCKING_HEADERS"
  "toLowerCase ''x-amz-content-sha256'' \<notin> set PURGE_BLOCKING_HEADERS"
  "toLowerCase ''Authorization'' \<notin> set PURGE_BLOCKING_HEADERS"
  by (simp_all add: lower_names PURGE_BLOCKING_HEADERS_def)

lemma storageCall_Inr:
  assumes "storageCall R config req = Inr c"
  shows "\<exists>aws. signAwsRequest R (req_method req) (s3Url config (req_url req))
                 (hset ''Host'' (tpl (bucket config) @ ''.'' @ tpl (endpoint config))
                    (forwardHeaders (req_headers req)))
                 (if bodyless req then [] else req_text req) config = Inr aws \<and>
               c = StorageFetch (s3Url config (req_url req)) (req_method req)
                     (foldl (\<lambda>hs (key, v). hset key v hs)
                        (hset ''Host'' (tpl (bucket config) @ ''.'' @ tpl (endpoint config))
                           (forwardHeaders (req_headers req))) aws)
                     (if bodyless req then None else Some (if bodyless req then [] else req_text req))"
  using assms unfolding storageCall_def Let_def
  by (cases "signAwsRequest R (req_method req) (s3Url config (req_url req))
                 (hset ''Host'' (tpl (bucket config) @ ''.'' @ tpl (endpoint config))
                    (forwardHeaders (req_headers req)))
                 (if bodyless req then [] else req_text req) config") simp_all

lemma noBlocked_storageCall:
  assumes "storageCall R config req = Inr c"
  shows "noBlocked (callHeaders c)"
proof -
  let ?h = "hset ''Host'' (tpl (bucket config) @ ''.'' @ tpl (endpoint config))
              (forwardHeaders (req_headers req))"
  from storageCall_Inr [OF assms] obtain aws where
    s: "signAwsRequest R (req_method req) (s3Url config (req_url req)) ?h
          (if bodyless req then [] else req_text req) config = Inr aws"
    and c: "callHeaders c = foldl (\<lambda>hs (key, v). hset key v hs) ?h aws"
    by (auto simp: callHeaders_def)
  from signAwsRequest_Inr [OF s] obtain a b d where
    aws: "aws = [(''x-amz-date'', a), (''x-amz-content-sha256'', b), (''Authorization'', d)]"
    by blast
  have "noBlocked ?h"
    by (simp add: noBlocked_hset noBlocked_forwardHeaders not_blocked_names)
  then show ?thesis
    by (simp add: c aws noBlocked_hset not_blocked_names)
qed


lemma noBlocked_hdelete: "noBlocked hs \<Longrightarrow> noBlocked (hdelete m hs)"
  by (simp add: noBlocked_iff in_hdelete)

lemma in_fold_hdelete:
  "h \<in> set (foldl (\<lambda>hs b. hdelete b hs) hs bs) \<longleftrightarrow>
   h \<in> set hs \<and> toLowerCase (fst h) \<notin> toLowerCase ` set bs"
  by (induction bs arbitrary: hs) (auto simp: in_hdelete)

lemma lower_blocking: "toLowerCase ` set PURGE_BLOCKING_HEADERS = set PURGE_BLOCKING_HEADERS"
  by (simp add: PURGE_BLOCKING_HEADERS_def lower_names)

lemma noBlocked_fold_hdelete:
  "noBlocked (foldl (\<lambda>hs b. hdelete b hs) hs PURGE_BLOCKING_HEADERS)"
  by (simp add: noBlocked_iff in_fold_hdelete lower_blocking)

lemma noBlocked_responseHeaders: "noBlocked (responseHeaders R allowed req origin originResp)"
  unfolding responseHeaders_def Let_def
  by (intro noBlocked_hdelete noBlocked_fold_hdelete)

text \<open>
  Claim C3. For every proxied request and every origin response, none of the seven
  purge-blocking header names, in whatever case, is a header of the request sent to
  storage, and none is a header of the response returned to the client, even when the
  inbound request or the origin response carried one.
\<close>

theorem purge_blocking_headers_filtered:
  assumes "proxied e req" and "storageCall R config req = Inr c"
    and "fetch_storage R c = Some originResp"
  shows "snd (fetch R e config req) = [c] \<and> noBlocked (callHeaders c) \<and>
         (case fst (fetch R e config req) of
            Inl err \<Rightarrow> False
          | Inr resp \<Rightarrow> noBlocked (resp_headers resp))"
  using assms
  by (simp add: fetch_proxied proxy_response noBlocked_storageCall noBlocked_responseHeaders)

text \<open>
  The example request carries \<open>Origin\<close> and \<open>X-Forwarded-Host\<close>, the example origin
  response carries \<open>Origin\<close>; neither reaches the other side.
\<close>

theorem purge_blocking_headers_filtered_witness:
  "proxied exampleEnv exampleGet \<and>
   storageCall exampleRuntime exampleConfig exampleGet = Inr exampleCall \<and>
   fetch_storage exampleRuntime exampleCall = Some exampleOriginResp \<and>
   hhas ''x-forwarded-host'' (req_headers exampleGet) \<and>
   hhas ''origin'' (resp_headers exampleOriginResp) \<and>
   snd (fetch exampleRuntime exampleEnv exampleConfig exampleGet) = [exampleCall] \<and>
   noBlocked (callHeaders exampleCall) \<and>
   (case fst (fetch exampleRuntime exampleEnv exampleConfig exampleGet) of
      Inl err \<Rightarrow> False
    | Inr resp \<Rightarrow> noBlocked (resp_headers resp))"
proof -
  have "hhas ''x-forwarded-host'' (req_headers exampleGet)"
    by code_simp
  moreover have "hhas ''origin'' (resp_headers exampleOriginResp)"
    by code_simp
  ultimately show ?thesis
    using purge_blocking_headers_filtered [OF example_proxied example_storageCall example_fetch_storage]
      example_proxied example_storageCall example_fetch_storage
    by simp
qed

section \<open>Copying the headers of the origin response\<close>

lemma fold_happend: "foldl (\<lambda>hs (k, v). happend k v hs) acc xs = acc @ xs"
  by (induction xs arbitrary: acc) (auto simp: happend_def)

lemma Headers_copy_entries: "Headers_copy init = entries init"
  by (simp add: Headers_copy_def fold_happend)

lemma filter_eq_distinct: "distinct xs \<Longrightarrow> filter (\<lambda>x. x = a) xs = (if a \<in> set xs then [a] else [])"
  by (induction xs) auto

lemma distinct_hnames: "distinct (hnames hs)"
  by (simp add: hnames_def)

lemma set_hnames: "set (hnames hs) = (\<lambda>h. toLowerCase (fst h)) ` set hs"
  by (simp add: hnames_def)

lemma hhas_hnames: "hhas n hs \<longleftrightarrow> toLowerCase n \<in> set (hnames hs)"
proof -
  have "hhas n hs \<longleftrightarrow> (\<exists>h \<in> set hs. toLowerCase (fst h) = toLowerCase n)"
    by (simp add: hhas_def list_ex_iff hmatch_def)
  also have "\<dots> \<longleftrightarrow> toLowerCase n \<in> (\<lambda>h. toLowerCase (fst h)) ` set hs"
    by (metis (mono_tags, lifting) image_iff)
  finally show ?thesis by (simp add: set_hnames)
qed

lemma hvalues_lower: "hvalues (toLowerCase n) hs = hvalues n hs"
proof -
  have "hmatch (toLowerCase n) = hmatch n"
    by (rule hmatch_cong) (simp add: toLowerCase_idem)
  then show ?thesis by (simp add: hvalues_def)
qed

lemma hvalues_entries:
  "hvalues n (entries hs) = (if hhas n hs then [join '', '' (hvalues n hs)] else [])"
proof -
  let ?f = "\<lambda>m. (m, join '', '' (map snd (filter (hmatch m) hs)))"
  have "filter (hmatch n) (map ?f (hnames hs)) = map ?f (filter (\<lambda>m. hmatch n (?f m)) (hnames hs))"
    by (simp add: filter_map o_def)
  also have "filter (\<lambda>m. hmatch n (?f m)) (hnames hs) = filter (\<lambda>m. m = toLowerCase n) (hnames hs)"
    by (rule filter_cong) (auto simp: set_hnames hmatch_def toLowerCase_idem)
  also have "\<dots> = (if hhas n hs then [toLowerCase n] else [])"
    by (simp add: filter_eq_distinct distinct_hnames hhas_hnames)
  finally show ?thesis
    using hvalues_lower [of n hs] by (simp add: hvalues_def entries_def)
qed

lemma hget_Headers_copy: "hget n (Headers_copy hs) = hget n hs"
  by (simp add: Headers_copy_entries hget_hvalues hvalues_entries hhas_hvalues)

section \<open>The CORS decision\<close>

lemma isOriginAllowed_truthy: "isOriginAllowed R origin allowed \<Longrightarrow> truthy origin"
  by (auto simp: isOriginAllowed_def split: if_splits)

lemma allowed_present:
  "truthy origin \<and> isOriginAllowed R origin allowed \<longleftrightarrow>
   origin \<noteq> None \<and> isOriginAllowed R origin allowed"
  using isOriginAllowed_truthy [of R origin allowed] by (cases origin) auto

lemma truthy_tpl: "truthy origin \<Longrightarrow> Some (tpl origin) = origin"
  by (cases origin) simp_all

lemma isSafeNoCorsRequest_iff:
  "isSafeNoCorsRequest req origin \<longleftrightarrow>
     (origin = None \<or> origin = Some ''null'') \<and> req_method req \<in> set [''GET'', ''HEAD'', ''OPTIONS'']"
  by (auto simp: isSafeNoCorsRequest_def)

text \<open>What the final-response branch leaves under each of the three names it sets.\<close>

lemma hget_finalCors_origin:
  "hget ''Access-Control-Allow-Origin'' (finalCors R allowed req origin headers) =
     (case corsTable R allowed (pathname (req_url req)) origin (req_method req) of
        Some v \<Rightarrow> Some v
      | None \<Rightarrow> hget ''Access-Control-Allow-Origin'' headers)"
  using allowed_present [of origin R allowed]
  by (cases origin)
     (auto simp: finalCors_def corsTable_def isSafeNoCorsRequest_iff hget_hset lower_names)

lemma hget_finalCors_methods:
  "hget ''Access-Control-Allow-Methods'' (finalCors R allowed req origin headers) =
     (case corsTable R allowed (pathname (req_url req)) origin (req_method req) of
        Some v \<Rightarrow> Some ''GET, HEAD, OPTIONS''
      | None \<Rightarrow> hget ''Access-Control-Allow-Methods'' headers)"
  using allowed_present [of origin R allowed]
  by (cases origin)
     (auto simp: finalCors_def corsTable_def isSafeNoCorsRequest_iff hget_hset lower_names)

lemma hget_finalCors_headers:
  "hget ''Access-Control-Allow-Headers'' (finalCors R allowed req origin headers) =
     (case corsTable R allowed (pathname (req_url req)) origin (req_method req) of
        Some v \<Rightarrow> Some ''Content-Type, Range''
      | None \<Rightarrow> hget ''Access-Control-Allow-Headers'' headers)"
  using allowed_present [of origin R allowed]
  by (cases origin)
     (auto simp: finalCors_def corsTable_def isSafeNoCorsRequest_iff hget_hset lower_names)


lemma hget_responseHeaders_origin:
  "hget ''Access-Control-Allow-Origin'' (responseHeaders R allowed req origin originResp) =
     (case corsTable R allowed (pathname (req_url req)) origin (req_method req) of
        Some v \<Rightarrow> Some v
      | None \<Rightarrow> hget ''Access-Control-Allow-Origin'' (resp_headers originResp))"
  by (simp add: responseHeaders_def Let_def PURGE_BLOCKING_HEADERS_def hget_hdelete hget_hset
        lower_names hget_finalCors_origin hget_Headers_copy split: option.splits)

lemma hget_responseHeaders_methods:
  "hget ''Access-Control-Allow-Methods'' (responseHeaders R allowed req origin originResp) =
     (case corsTable R allowed (pathname (req_url req)) origin (req_method req) of
        Some v \<Rightarrow> Some ''GET, HEAD, OPTIONS''
      | None \<Rightarrow> hget ''Access-Control-Allow-Methods'' (resp_headers originResp))"
  by (simp add: responseHeaders_def Let_def PURGE_BLOCKING_HEADERS_def hget_hdelete hget_hset
        lower_names hget_finalCors_methods hget_Headers_copy split: option.splits)

lemma hget_responseHeaders_headers:
  "hget ''Access-Control-Allow-Headers'' (responseHeaders R allowed req origin originResp) =
     (case corsTable R allowed (pathname (req_url req)) origin (req_method req) of
        Some v \<Rightarrow> Some ''Content-Type, Range''
      | None \<Rightarrow> hget ''Access-Control-Allow-Headers'' (resp_headers originResp))"
  by (simp add: responseHeaders_def Let_def PURGE_BLOCKING_HEADERS_def hget_hdelete hget_hset
        lower_names hget_finalCors_headers hget_Headers_copy split: option.splits)

text \<open>
  Claim C1, amended. For every proxied request (not a preflight, not a purge request, not
  redirected to HTTPS) the worker follows the four-case table, first match wins: a font
  path gets \<open>Access-Control-Allow-Origin: *\<close>; else an Origin header that is present and
  allowed is echoed; else an absent or \<open>null\<close> Origin on GET, HEAD or OPTIONS gets \<open>*\<close>;
  in these three cases allow-methods and allow-headers are set too. Otherwise the worker
  sets no CORS header, and the response carries the CORS headers of the origin response,
  if it sent any.
\<close>

theorem cors_decision_table:
  assumes "proxied e req" and "storageCall R config req = Inr c"
    and "fetch_storage R c = Some originResp"
  shows "responseHeader ''Access-Control-Allow-Origin'' (fetch R e config req) =
           (case corsTable R (allowedOrigins R e) (pathname (req_url req))
                   (hget ''Origin'' (req_headers req)) (req_method req) of
              Some v \<Rightarrow> Some v
            | None \<Rightarrow> hget ''Access-Control-Allow-Origin'' (resp_headers originResp)) \<and>
         responseHeader ''Access-Control-Allow-Methods'' (fetch R e config req) =
           (case corsTable R (allowedOrigins R e) (pathname (req_url req))
                   (hget ''Origin'' (req_headers req)) (req_method req) of
              Some v \<Rightarrow> Some ''GET, HEAD, OPTIONS''
            | None \<Rightarrow> hget ''Access-Control-Allow-Methods'' (resp_headers originResp)) \<and>
         responseHeader ''Access-Control-Allow-Headers'' (fetch R e config req) =
           (case corsTable R (allowedOrigins R e) (pathname (req_url req))
                   (hget ''Origin'' (req_headers req)) (req_method req) of
              Some v \<Rightarrow> Some ''Content-Type, Range''
            | None \<Rightarrow> hget ''Access-Control-Allow-Headers'' (resp_headers originResp))"
  using assms
  by (simp add: fetch_proxied proxy_response responseHeader_def hget_responseHeaders_origin
        hget_responseHeaders_methods hget_responseHeaders_headers)

text \<open>
  A GET from an allowed subdomain: the origin response says \<open>*\<close>, the client receives
  the Origin header echoed.
\<close>

theorem cors_decision_table_witness:
  "proxied exampleEnv exampleAllowedGet \<and>
   storageCall exampleRuntime exampleConfig exampleAllowedGet = Inr exampleCall \<and>
   fetch_storage exampleRuntime exampleCall = Some exampleOriginResp \<and>
   responseHeader ''Access-Control-Allow-Origin''
     (fetch exampleRuntime exampleEnv exampleConfig exampleAllowedGet) = Some ''https://app.allowed.example'' \<and>
   responseHeader ''Access-Control-Allow-Methods''
     (fetch exampleRuntime exampleEnv exampleConfig exampleAllowedGet) = Some ''GET, HEAD, OPTIONS'' \<and>
   responseHeader ''Access-Control-Allow-Headers''
     (fetch exampleRuntime exampleEnv exampleConfig exampleAllowedGet) = Some ''Content-Type, Range''"
proof -
  have p: "proxied exampleEnv exampleAllowedGet"
    by code_simp
  have s: "storageCall exampleRuntime exampleConfig exampleAllowedGet = Inr exampleCall"
    by code_simp
  have t: "corsTable exampleRuntime (allowedOrigins exampleRuntime exampleEnv)
             (pathname (req_url exampleAllowedGet)) (hget ''Origin'' (req_headers exampleAllowedGet))
             (req_method exampleAllowedGet) = Some ''https://app.allowed.example''"
    by code_simp
  show ?thesis
    using cors_decision_table [OF p s example_fetch_storage] p s example_fetch_storage
    by (simp add: t)
qed

text \<open>
  Where the claim as stated fails: a GET from an origin that is not allowed, for a path
  that is not a font, falls in the fourth case, and the response still carries the
  \<open>Access-Control-Allow-Origin: *\<close> that the origin response had.
\<close>

theorem cors_decision_table_counterexample:
  "proxied exampleEnv exampleGet \<and>
   \<not> isFontRequest (pathname (req_url exampleGet)) \<and>
   hget ''Origin'' (req_headers exampleGet) = Some ''https://evilallowed.example'' \<and>
   \<not> isOriginAllowed exampleRuntime (Some ''https://evilallowed.example'')
       (allowedOrigins exampleRuntime exampleEnv) \<and>
   \<not> isSafeNoCorsRequest exampleGet (Some ''https://evilallowed.example'') \<and>
   responseHeader ''Access-Control-Allow-Origin''
     (fetch exampleRuntime exampleEnv exampleConfig exampleGet) = Some ''*''"
  by code_simp

section \<open>The two places that set CORS headers\<close>

lemma hget_preflightCors:
  "hget n (preflightCors R allowed req origin) =
     (case corsTable R allowed (pathname (req_url req)) origin (req_method req) of
        None \<Rightarrow> None
      | Some v \<Rightarrow>
          if toLowerCase n = ''access-control-max-age'' then Some ''86400''
          else if toLowerCase n = ''access-control-allow-headers'' then Some ''Content-Type, Range''
          else if toLowerCase n = ''access-control-allow-methods'' then Some ''GET, HEAD, OPTIONS''
          else if toLowerCase n = ''access-control-allow-origin'' then Some v
          else None)"
  using allowed_present [of origin R allowed]
  by (cases origin)
     (auto simp: preflightCors_def corsTable_def isSafeNoCorsRequest_iff hget_hset hget_Nil lower_names)

lemma hget_finalCors:
  "hget n (finalCors R allowed req origin headers) =
     (case corsTable R allowed (pathname (req_url req)) origin (req_method req) of
        None \<Rightarrow> hget n headers
      | Some v \<Rightarrow>
          if toLowerCase n = ''access-control-allow-headers'' then Some ''Content-Type, Range''
          else if toLowerCase n = ''access-control-allow-methods'' then Some ''GET, HEAD, OPTIONS''
          else if toLowerCase n = ''access-control-allow-origin'' then Some v
          else hget n headers)"
  using allowed_present [of origin R allowed]
  by (cases origin)
     (auto simp: finalCors_def corsTable_def isSafeNoCorsRequest_iff hget_hset lower_names)

text \<open>
  Claim C4, amended. For every path, Origin header, method and set of allowed origins, the
  final-response branch sets exactly the headers that the preflight branch sets on the same
  inputs, with the same values, except \<open>Access-Control-Max-Age\<close>, which only the
  preflight sets; where the preflight sets nothing the final response keeps the headers it
  had. When access is granted the preflight carries allow-methods \<open>GET, HEAD, OPTIONS\<close>,
  allow-headers \<open>Content-Type, Range\<close> and max-age \<open>86400\<close>.
\<close>

theorem cors_call_sites_agree:
  "hget n (finalCors R allowed req origin headers) =
     (case hget n (hdelete ''Access-Control-Max-Age'' (preflightCors R allowed req origin)) of
        Some v \<Rightarrow> Some v
      | None \<Rightarrow> hget n headers) \<and>
   (case hget ''Access-Control-Allow-Origin'' (preflightCors R allowed req origin) of
      None \<Rightarrow> preflightCors R allowed req origin = []
    | Some v \<Rightarrow>
        hget ''Access-Control-Allow-Methods'' (preflightCors R allowed req origin) = Some ''GET, HEAD, OPTIONS'' \<and>
        hget ''Access-Control-Allow-Headers'' (preflightCors R allowed req origin) = Some ''Content-Type, Range'' \<and>
        hget ''Access-Control-Max-Age'' (preflightCors R allowed req origin) = Some ''86400'')"
proof
  show "hget n (finalCors R allowed req origin headers) =
     (case hget n (hdelete ''Access-Control-Max-Age'' (preflightCors R allowed req origin)) of
        Some v \<Rightarrow> Some v
      | None \<Rightarrow> hget n headers)"
    by (simp add: hget_finalCors hget_hdelete hget_preflightCors lower_names split: option.splits)
next
  show "case hget ''Access-Control-Allow-Origin'' (preflightCors R allowed req origin) of
      None \<Rightarrow> preflightCors R allowed req origin = []
    | Some v \<Rightarrow>
        hget ''Access-Control-Allow-Methods'' (preflightCors R allowed req origin) = Some ''GET, HEAD, OPTIONS'' \<and>
        hget ''Access-Control-Allow-Headers'' (preflightCors R allowed req origin) = Some ''Content-Type, Range'' \<and>
        hget ''Access-Control-Max-Age'' (preflightCors R allowed req origin) = Some ''86400''"
  proof (cases "corsTable R allowed (pathname (req_url req)) origin (req_method req)")
    case None
    then have "preflightCors R allowed req origin = []"
      using allowed_present [of origin R allowed]
      by (auto simp: preflightCors_def corsTable_def isSafeNoCorsRequest_iff split: if_splits)
    then show ?thesis by (simp add: hget_Nil)
  next
    case (Some v)
    then show ?thesis by (simp add: hget_preflightCors lower_names)
  qed
qed

text \<open>A font path without an Origin header, the final response starting from no headers.\<close>

theorem cors_call_sites_agree_witness:
  "hget ''Access-Control-Allow-Origin''
     (finalCors exampleRuntime [] (exampleRequest ''GET'' ''/font.woff'' [] []) None []) = Some ''*'' \<and>
   hget ''Access-Control-Max-Age''
     (finalCors exampleRuntime [] (exampleRequest ''GET'' ''/font.woff'' [] []) None []) = None \<and>
   hget ''Access-Control-Max-Age''
     (preflightCors exampleRuntime [] (exampleRequest ''GET'' ''/font.woff'' [] []) None) = Some ''86400''"
proof -
  have pre: "preflightCors exampleRuntime [] (exampleRequest ''GET'' ''/font.woff'' [] []) None =
          [(''Access-Control-Allow-Origin'', ''*''),
           (''Access-Control-Allow-Methods'', ''GET, HEAD, OPTIONS''),
           (''Access-Control-Allow-Headers'', ''Content-Type, Range''),
           (''Access-Control-Max-Age'', ''86400'')]"
    by code_simp
  have a: "hget ''Access-Control-Allow-Origin''
             (hdelete ''Access-Control-Max-Age''
               [(''Access-Control-Allow-Origin'', ''*''),
                (''Access-Control-Allow-Methods'', ''GET, HEAD, OPTIONS''),
                (''Access-Control-Allow-Headers'', ''Content-Type, Range''),
                (''Access-Control-Max-Age'', ''86400'')]) = Some ''*''"
    by code_simp
  have b: "hget ''Access-Control-Max-Age''
             (hdelete ''Access-Control-Max-Age''
               [(''Access-Control-Allow-Origin'', ''*''),
                (''Access-Control-Allow-Methods'', ''GET, HEAD, OPTIONS''),
                (''Access-Control-Allow-Headers'', ''Content-Type, Range''),
                (''Access-Control-Max-Age'', ''86400'')]) = None"
    by code_simp
  have c: "hget ''Access-Control-Max-Age''
               [(''Access-Control-Allow-Origin'', ''*''),
                (''Access-Control-Allow-Methods'', ''GET, HEAD, OPTIONS''),
                (''Access-Control-Allow-Headers'', ''Content-Type, Range''),
                (''Access-Control-Max-Age'', ''86400'')] = Some ''86400''"
    by code_simp
  show ?thesis
    using cors_call_sites_agree [of "''Access-Control-Allow-Origin''" exampleRuntime "[]"
            "exampleRequest ''GET'' ''/font.woff'' [] []" None "[]"]
          cors_call_sites_agree [of "''Access-Control-Max-Age''" exampleRuntime "[]"
            "exampleRequest ''GET'' ''/font.woff'' [] []" None "[]"]
    by (simp add: pre a b c hget_Nil)
qed

text \<open>
  Where the claim as stated fails: the same font path, without an Origin header. The
  preflight response carries \<open>Access-Control-Max-Age: 86400\<close>, the response to the GET
  carries no such header.
\<close>

theorem cors_call_sites_agree_counterexample:
  "responseHeader ''Access-Control-Max-Age''
     (fetch exampleRuntime exampleEnv exampleConfig (exampleRequest ''OPTIONS'' ''/font.woff'' [] [])) =
     Some ''86400'' \<and>
   responseHeader ''Access-Control-Allow-Origin''
     (fetch exampleRuntime exampleEnv exampleConfig (exampleRequest ''GET'' ''/font.woff'' [] [])) =
     Some ''*'' \<and>
   responseHeader ''Access-Control-Max-Age''
     (fetch exampleRuntime exampleEnv exampleConfig (exampleRequest ''GET'' ''/font.woff'' [] [])) =
     None"
  by code_simp

section \<open>What a domain pattern matches\<close>

lemma rmatch_lits:
  "i \<le> length s \<Longrightarrow>
   rmatch (lits d) s i = (if take (length d) (drop i s) = d then [i + length d] else [])"
proof (induction d arbitrary: i)
  case Nil
  then show ?case by simp
next
  case (Cons c cs)
  show ?case
  proof (cases "i < length s")
    case True
    then have d: "drop i s = s ! i # drop (Suc i) s"
      by (simp add: Cons_nth_drop_Suc)
    from True have "Suc i \<le> length s" by simp
    from Cons.IH [OF this] show ?thesis using True by (simp add: d)
  next
    case False
    then show ?thesis by simp
  qed
qed

lemma drop_eq_iff:
  "i \<le> length s \<Longrightarrow> drop i s = d \<longleftrightarrow> take (length d) (drop i s) = d \<and> i + length d = length s"
proof
  assume "i \<le> length s" and "drop i s = d"
  then show "take (length d) (drop i s) = d \<and> i + length d = length s" by auto
next
  assume i: "i \<le> length s" and t: "take (length d) (drop i s) = d \<and> i + length d = length s"
  from t have "i + length d = length s" by simp
  then have "length (drop i s) = length d" by simp
  then have "take (length d) (drop i s) = drop i s" by simp
  with t show "drop i s = d" by simp
qed

lemma rmatch_lits_Eol:
  assumes "i \<le> length s"
  shows "rmatch (Seq (lits d) Eol) s i = (if drop i s = d then [length s] else [])"
proof (cases "take (length d) (drop i s) = d")
  case True
  then have "rmatch (Seq (lits d) Eol) s i = (if i + length d = length s then [i + length d] else [])"
    using assms by (simp add: rmatch_lits)
  then show ?thesis using True drop_eq_iff [OF assms, of d] by auto
next
  case False
  then have "rmatch (Seq (lits d) Eol) s i = []"
    using assms by (simp add: rmatch_lits)
  then show ?thesis using False drop_eq_iff [OF assms, of d] by auto
qed

lemma rmatch_domain:
  assumes "i \<le> length s"
  shows "rmatch (Seq (Alt Bol (Lit CHR ''.'')) (Seq (lits d) Eol)) s i \<noteq> [] \<longleftrightarrow>
     (i = 0 \<and> s = d) \<or> (i < length s \<and> s ! i = CHR ''.'' \<and> drop (Suc i) s = d)"
proof -
  let ?t = "Seq (lits d) Eol"
  have a: "rmatch (Seq (Alt Bol (Lit CHR ''.'')) ?t) s i =
             concat (map (rmatch ?t s) (rmatch (Alt Bol (Lit CHR ''.'')) s i))"
    by (simp only: rmatch.simps)
  have b: "rmatch (Alt Bol (Lit CHR ''.'')) s i =
             (if i = 0 then [0] else []) @ (if i < length s \<and> s ! i = CHR ''.'' then [Suc i] else [])"
    by simp
  have c0: "rmatch ?t s 0 = (if s = d then [length s] else [])"
    using rmatch_lits_Eol [of 0 s d] by simp
  have c1: "rmatch ?t s (Suc i) = (if drop (Suc i) s = d then [length s] else [])" if "i < length s"
    using rmatch_lits_Eol [of "Suc i" s d] that by simp
  show ?thesis
  proof (cases "i < length s \<and> s ! i = CHR ''.''")
    case True
    then show ?thesis unfolding a b using c0 c1 by (cases "i = 0") (simp_all del: rmatch.simps)
  next
    case False
    then show ?thesis unfolding a b using c0 by (cases "i = 0") (auto simp del: rmatch.simps)
  qed
qed

lemma endsWith_dot:
  "endsWith h (CHR ''.'' # d) \<longleftrightarrow> (\<exists>i < length h. h ! i = CHR ''.'' \<and> drop (Suc i) h = d)"
proof
  assume e: "endsWith h (CHR ''.'' # d)"
  let ?i = "length h - Suc (length d)"
  from e have l: "Suc (length d) \<le> length h" and dr: "drop ?i h = CHR ''.'' # d"
    by (simp_all add: endsWith_def)
  from l have il: "?i < length h" by simp
  from Cons_nth_drop_Suc [OF il] dr have "h ! ?i # drop (Suc ?i) h = CHR ''.'' # d"
    by simp
  then have "h ! ?i = CHR ''.''" "drop (Suc ?i) h = d"
    by simp_all
  with il show "\<exists>i < length h. h ! i = CHR ''.'' \<and> drop (Suc i) h = d" by blast
next
  assume "\<exists>i < length h. h ! i = CHR ''.'' \<and> drop (Suc i) h = d"
  then obtain i where i: "i < length h" "h ! i = CHR ''.''" "drop (Suc i) h = d" by blast
  then have dr: "drop i h = CHR ''.'' # d"
    using Cons_nth_drop_Suc [of i h] by simp
  from i(3) have ld: "length d = length h - Suc i" by auto
  with i(1) have "Suc (length d) \<le> length h" and "length h - Suc (length d) = i" by simp_all
  with dr show "endsWith h (CHR ''.'' # d)" by (simp add: endsWith_def)
qed

lemma list_ex_upto: "list_ex P [0..<Suc n] \<longleftrightarrow> (\<exists>i. i \<le> n \<and> P i)"
proof
  assume "list_ex P [0..<Suc n]"
  then obtain i where "i \<in> set [0..<Suc n]" and "P i"
    unfolding list_ex_iff by blast
  then have "i \<le> n \<and> P i" by auto
  then show "\<exists>i. i \<le> n \<and> P i" ..
next
  assume "\<exists>i. i \<le> n \<and> P i"
  then obtain i where "i \<le> n" and "P i" by blast
  then have "i \<in> set [0..<Suc n]" by auto
  with \<open>P i\<close> show "list_ex P [0..<Suc n]"
    unfolding list_ex_iff by blast
qed

lemma rtest_domain:
  "rtest (Seq (Alt Bol (Lit CHR ''.'')) (Seq (lits d) Eol)) h \<longleftrightarrow> h = d \<or> endsWith h (CHR ''.'' # d)"
proof -
  let ?r = "Seq (Alt Bol (Lit CHR ''.'')) (Seq (lits d) Eol)"
  have "rtest ?r h \<longleftrightarrow> (\<exists>i. i \<le> length h \<and> rmatch ?r h i \<noteq> [])"
    unfolding rtest_def by (rule list_ex_upto)
  also have "\<dots> \<longleftrightarrow> (\<exists>i. i \<le> length h \<and>
                 ((i = 0 \<and> h = d) \<or> (i < length h \<and> h ! i = CHR ''.'' \<and> drop (Suc i) h = d)))"
    by (rule ex_cong1, rule conj_cong, rule refl, rule rmatch_domain)
  also have "\<dots> \<longleftrightarrow> h = d \<or> (\<exists>i < length h. h ! i = CHR ''.'' \<and> drop (Suc i) h = d)"
  proof
    assume "\<exists>i. i \<le> length h \<and>
                 ((i = 0 \<and> h = d) \<or> (i < length h \<and> h ! i = CHR ''.'' \<and> drop (Suc i) h = d))"
    then show "h = d \<or> (\<exists>i < length h. h ! i = CHR ''.'' \<and> drop (Suc i) h = d)"
      by blast
  next
    assume "h = d \<or> (\<exists>i < length h. h ! i = CHR ''.'' \<and> drop (Suc i) h = d)"
    then show "\<exists>i. i \<le> length h \<and>
                 ((i = 0 \<and> h = d) \<or> (i < length h \<and> h ! i = CHR ''.'' \<and> drop (Suc i) h = d))"
    proof
      assume "h = d"
      then have "0 \<le> length h \<and> ((0 = (0::nat) \<and> h = d) \<or>
                   (0 < length h \<and> h ! 0 = CHR ''.'' \<and> drop (Suc 0) h = d))"
        by simp
      then show ?thesis ..
    next
      assume "\<exists>i < length h. h ! i = CHR ''.'' \<and> drop (Suc i) h = d"
      then obtain i where "i < length h" "h ! i = CHR ''.''" "drop (Suc i) h = d" by blast
      then have "i \<le> length h \<and> ((i = 0 \<and> h = d) \<or>
                   (i < length h \<and> h ! i = CHR ''.'' \<and> drop (Suc i) h = d))"
        by simp
      then show ?thesis ..
    qed
  qed
  finally show ?thesis by (simp only: endsWith_dot)
qed


lemma parseLiterals_plain:
  "c \<notin> set syntaxChars \<Longrightarrow> parseLiterals (c # rest) = map_option (Seq (Lit c)) (parseLiterals rest)"
  by (cases rest) (auto simp: syntaxChars_def)

lemma parseLiterals_dot:
  "parseLiterals (backslash # CHR ''.'' # rest) = map_option (Seq (Lit CHR ''.'')) (parseLiterals rest)"
  by simp

lemma parseLiterals_escapeDots:
  "plainDomain d \<Longrightarrow> parseLiterals (escapeDots d) = Some (lits d)"
proof (induction d)
  case Nil
  then show ?case by (simp add: escapeDots_def)
next
  case (Cons c cs)
  then have ih: "parseLiterals (escapeDots cs) = Some (lits cs)"
    by (simp add: plainDomain_def)
  have e: "escapeDots (c # cs) = (if c = CHR ''.'' then [backslash, CHR ''.''] else [c]) @ escapeDots cs"
    by (simp add: escapeDots_def)
  show ?case
  proof (cases "c = CHR ''.''")
    case True
    have "parseLiterals (escapeDots (c # cs)) = parseLiterals (backslash # CHR ''.'' # escapeDots cs)"
      using True by (simp add: escapeDots_def)
    also have "\<dots> = map_option (Seq (Lit CHR ''.'')) (parseLiterals (escapeDots cs))"
      by (rule parseLiterals_dot)
    also have "\<dots> = Some (lits (c # cs))"
      using ih True by simp
    finally show ?thesis .
  next
    case False
    with Cons.prems have c: "c \<notin> set syntaxChars" by (auto simp: plainDomain_def)
    have "parseLiterals (escapeDots (c # cs)) = parseLiterals (c # escapeDots cs)"
      using False by (simp add: escapeDots_def)
    also have "\<dots> = map_option (Seq (Lit c)) (parseLiterals (escapeDots cs))"
      using c by (rule parseLiterals_plain)
    also have "\<dots> = Some (lits (c # cs))"
      using ih by simp
    finally show ?thesis .
  qed
qed

lemma parsePattern_patternSource:
  assumes "plainDomain d"
  shows "parsePattern (patternSource d) = Some (Seq (Alt Bol (Lit CHR ''.'')) (Seq (lits d) Eol))"
proof -
  let ?p = "''(^|'' @ [backslash] @ ''.)''"
  have src: "patternSource d = ?p @ escapeDots d @ ''$''"
    by (simp add: patternSource_def)
  have "length ?p = 6" by simp
  then have "take 6 (patternSource d) = ?p" and "drop 6 (patternSource d) = escapeDots d @ ''$''"
    and "7 \<le> length (patternSource d)" and "last (patternSource d) = CHR ''$''"
    by (simp_all add: src)
  then show ?thesis
    unfolding parsePattern_def
    by (simp add: butlast_append parseLiterals_escapeDots [OF assms])
qed

lemma those_map_Some: "those (map (\<lambda>x. Some (f x)) xs) = Some (map f xs)"
  by (induction xs) simp_all

lemma allowedOrigins_plain:
  assumes conforms: "\<And>src r. parsePattern src = Some r \<Longrightarrow> RegExp_new R src = Some (rtest r)"
    and plain: "list_all plainDomain (configuredDomains e)"
  shows "allowedOrigins R e =
           map (\<lambda>d. rtest (Seq (Alt Bol (Lit CHR ''.'')) (Seq (lits d) Eol))) (configuredDomains e)"
proof (cases "truthy (ALLOWED_ORIGINS e)")
  case True
  let ?ds = "domains (tpl (ALLOWED_ORIGINS e))"
  from True plain have "\<forall>d \<in> set ?ds. plainDomain d"
    by (simp add: configuredDomains_def list_all_iff)
  then have m: "map (\<lambda>domain. RegExp_new R (patternSource domain)) ?ds =
             map (\<lambda>d. Some (rtest (Seq (Alt Bol (Lit CHR ''.'')) (Seq (lits d) Eol)))) ?ds"
    by (intro map_cong refl conforms parsePattern_patternSource) simp
  show ?thesis using True
    by (simp add: allowedOrigins_def configuredDomains_def m those_map_Some)
next
  case False
  then show ?thesis by (simp add: allowedOrigins_def configuredDomains_def defaultAllowed_def)
qed

text \<open>
  Claim C8. For every hostname \<open>h\<close> and every configured allowed domain \<open>d\<close>, an Origin
  header whose URL has hostname \<open>h\<close> is matched if and only if \<open>h\<close> equals \<open>d\<close> or \<open>h\<close>
  ends with a dot followed by \<open>d\<close>; a hostname that merely ends with \<open>d\<close> is not matched.
  The runtime's \<open>RegExp\<close> is assumed to agree with the matcher above on the patterns of
  the fragment, and a domain is spelt without regular-expression syntax characters other
  than the dot, as every domain name is.
\<close>

theorem origin_allowed_iff_domain_or_subdomain:
  assumes "\<And>src r. parsePattern src = Some r \<Longrightarrow> RegExp_new R src = Some (rtest r)"
    and "list_all plainDomain (configuredDomains e)"
    and "URL_parse R origin = Some u" and "origin \<noteq> []"
  shows "isOriginAllowed R (Some origin) (allowedOrigins R e) \<longleftrightarrow>
           list_ex (\<lambda>d. hostname u = d \<or> endsWith (hostname u) (CHR ''.'' # d)) (configuredDomains e)"
proof -
  have "isOriginAllowed R (Some origin) (allowedOrigins R e) \<longleftrightarrow>
          list_ex (\<lambda>pattern. pattern (hostname u)) (allowedOrigins R e)"
    using assms(3,4) by (simp add: isOriginAllowed_def)
  also have "\<dots> \<longleftrightarrow> list_ex (\<lambda>d. rtest (Seq (Alt Bol (Lit CHR ''.'')) (Seq (lits d) Eol)) (hostname u))
                        (configuredDomains e)"
    by (simp add: allowedOrigins_plain [OF assms(1,2)] list_ex_iff)
  finally show ?thesis by (simp only: rtest_domain)
qed


text \<open>
  With \<open>allowed.example\<close> configured, the origin \<open>https://app.allowed.example\<close> is
  matched and \<open>https://evilallowed.example\<close>, which only ends with the domain, is not.
\<close>

theorem origin_allowed_iff_domain_or_subdomain_witness:
  "RegExp_new exampleRuntime = (\<lambda>src. map_option rtest (parsePattern src)) \<and>
   configuredDomains exampleEnv = [''allowed.example''] \<and>
   list_all plainDomain (configuredDomains exampleEnv) \<and>
   map_option hostname (URL_parse exampleRuntime ''https://app.allowed.example'') = Some ''app.allowed.example'' \<and>
   map_option hostname (URL_parse exampleRuntime ''https://evilallowed.example'') = Some ''evilallowed.example'' \<and>
   isOriginAllowed exampleRuntime (Some ''https://app.allowed.example'')
     (allowedOrigins exampleRuntime exampleEnv) \<and>
   \<not> isOriginAllowed exampleRuntime (Some ''https://evilallowed.example'')
       (allowedOrigins exampleRuntime exampleEnv)"
proof -
  let ?app = "\<lparr>protocol = ''https:'', host = ''app.allowed.example'', hostname = ''app.allowed.example'',
               pathname = ''/'', search = []\<rparr>"
  let ?evil = "\<lparr>protocol = ''https:'', host = ''evilallowed.example'', hostname = ''evilallowed.example'',
                pathname = ''/'', search = []\<rparr>"
  have conforms: "\<And>src r. parsePattern src = Some r \<Longrightarrow> RegExp_new exampleRuntime src = Some (rtest r)"
    by (simp add: exampleRuntime_def)
  have ds: "configuredDomains exampleEnv = [''allowed.example'']"
    by code_simp
  have plain: "list_all plainDomain (configuredDomains exampleEnv)"
    by code_simp
  have app: "URL_parse exampleRuntime ''https://app.allowed.example'' = Some ?app"
    by code_simp
  have evil: "URL_parse exampleRuntime ''https://evilallowed.example'' = Some ?evil"
    by code_simp
  have yes: "list_ex (\<lambda>d. hostname ?app = d \<or> endsWith (hostname ?app) (CHR ''.'' # d)) [''allowed.example'']"
    by code_simp
  have no: "\<not> list_ex (\<lambda>d. hostname ?evil = d \<or> endsWith (hostname ?evil) (CHR ''.'' # d)) [''allowed.example'']"
    by code_simp
  have "isOriginAllowed exampleRuntime (Some ''https://app.allowed.example'')
          (allowedOrigins exampleRuntime exampleEnv)"
    using origin_allowed_iff_domain_or_subdomain [OF conforms plain app] yes ds by simp
  moreover have "\<not> isOriginAllowed exampleRuntime (Some ''https://evilallowed.example'')
          (allowedOrigins exampleRuntime exampleEnv)"
    using origin_allowed_iff_domain_or_subdomain [OF conforms plain evil] no ds by simp
  moreover have "RegExp_new exampleRuntime = (\<lambda>src. map_option rtest (parsePattern src))"
    by (simp add: exampleRuntime_def)
  ultimately show ?thesis
    using ds plain app evil by simp
qed

section \<open>Purge requests\<close>









section \<open>Requests to the purge path with another method\<close>

text \<open>
  Claim C5. A request to \<open>/.purge\<close> whose method is not POST (and which is neither a
  preflight nor redirected) is to be answered with 405 and a JSON error body, without any
  call to storage or to the purge API. The handler has that answer for a method other than
  POST, but the worker enters the handler only for POST: a GET of \<open>/.purge\<close> is
  proxied, that is signed, sent to storage, and answered with the status of storage
  (here 404).
\<close>

theorem purge_wrong_method_is_proxied:
  "fst (handlePurgeRequest exampleRuntime exampleEnv (exampleRequest ''GET'' ''/.purge'' [] [])) =
     jsonResponse 405 (JObj [(''error'', JStr ''Method not allowed. Use POST.'')]) \<and>
   responseStatus (fetch exampleRuntime exampleEnv exampleConfig (exampleRequest ''GET'' ''/.purge'' [] [])) =
     Some 404 \<and>
   snd (fetch exampleRuntime exampleEnv exampleConfig (exampleRequest ''GET'' ''/.purge'' [] [])) =
     [StorageFetch ''https://assets.s3.example.com/.purge'' ''GET''
        [(''Host'', ''assets.s3.example.com''),
         (''x-amz-date'', ''20240102T030405Z''), (''x-amz-content-sha256'', ''e3b0''),
         (''Authorization'',
          ''AWS4-HMAC-SHA256 Credential=AKIDEXAMPLE/20240102/us-east-1/s3/aws4_request, SignedHeaders=host;x-amz-content-sha256;x-amz-date, Signature=5d67'')]
        None]"
  by code_simp

section \<open>Missing credential fields\<close>

lemma signAwsRequest_Some:
  assumes "URL_parse R target = Some u"
  shows "\<exists>signature.
           signAwsRequest R method target headers payload config =
             Inr [(''x-amz-date'', stripDate (Date_toISOString R)),
                  (''x-amz-content-sha256'', toHex (sha256 R payload)),
                  (''Authorization'',
                   ''AWS4-HMAC-SHA256 Credential='' @ tpl (accessKeyId config) @ ''/''
                   @ take 8 (stripDate (Date_toISOString R)) @ ''/'' @ tpl (region config)
                   @ ''/s3/aws4_request, SignedHeaders=host;x-amz-content-sha256;x-amz-date, Signature=''
                   @ signature)]"
  unfolding signAwsRequest_def assms option.case Let_def
  by (cases "payload = []") auto

text \<open>
  Claim C6, amended. The storage configuration is not validated: for every configuration,
  also one that lacks a credential field, a proxied request whose storage URL parses is
  signed and sent to storage, and a missing access key id or region stands in the
  \<open>Authorization\<close> header as the string \<open>undefined\<close>.
\<close>

theorem missing_credentials_are_signed:
  assumes "proxied e req" and "URL_parse R (s3Url config (req_url req)) = Some u"
  shows "\<exists>headers body signature.
           snd (fetch R e config req) =
             [StorageFetch (s3Url config (req_url req)) (req_method req) headers body] \<and>
           hget ''Authorization'' headers =
             Some (''AWS4-HMAC-SHA256 Credential='' @ tpl (accessKeyId config) @ ''/''
                   @ take 8 (stripDate (Date_toISOString R)) @ ''/'' @ tpl (region config)
                   @ ''/s3/aws4_request, SignedHeaders=host;x-amz-content-sha256;x-amz-date, Signature=''
                   @ signature)"
proof -
  let ?h = "hset ''Host'' (tpl (bucket config) @ ''.'' @ tpl (endpoint config))
              (forwardHeaders (req_headers req))"
  let ?payload = "if bodyless req then [] else req_text req"
  from signAwsRequest_Some [OF assms(2), of "req_method req" ?h ?payload config]
  obtain signature where
    s: "signAwsRequest R (req_method req) (s3Url config (req_url req)) ?h ?payload config =
          Inr [(''x-amz-date'', stripDate (Date_toISOString R)),
               (''x-amz-content-sha256'', toHex (sha256 R ?payload)),
               (''Authorization'',
                ''AWS4-HMAC-SHA256 Credential='' @ tpl (accessKeyId config) @ ''/''
                @ take 8 (stripDate (Date_toISOString R)) @ ''/'' @ tpl (region config)
                @ ''/s3/aws4_request, SignedHeaders=host;x-amz-content-sha256;x-amz-date, Signature=''
                @ signature)]"
    by blast
  let ?auth = "''AWS4-HMAC-SHA256 Credential='' @ tpl (accessKeyId config) @ ''/''
                @ take 8 (stripDate (Date_toISOString R)) @ ''/'' @ tpl (region config)
                @ ''/s3/aws4_request, SignedHeaders=host;x-amz-content-sha256;x-amz-date, Signature=''
                @ signature"
  let ?hs = "hset ''Authorization'' ?auth
               (hset ''x-amz-content-sha256'' (toHex (sha256 R ?payload))
                 (hset ''x-amz-date'' (stripDate (Date_toISOString R)) ?h))"
  let ?c = "StorageFetch (s3Url config (req_url req)) (req_method req) ?hs
              (if bodyless req then None else Some ?payload)"
  have c: "storageCall R config req = Inr ?c"
    unfolding storageCall_def Let_def s by simp
  have "snd (fetch R e config req) = [?c]"
    using assms(1) c by (cases "fetch_storage R ?c") (simp_all add: fetch_proxied proxy_def)
  moreover have "hget ''Authorization'' ?hs = Some ?auth"
    by (simp add: hget_hset)
  ultimately show ?thesis by blast
qed

text \<open>The example request with a configuration that lacks the region.\<close>

theorem missing_credentials_are_signed_witness:
  "proxied exampleEnv exampleGet \<and>
   URL_parse exampleRuntime (s3Url (exampleConfig\<lparr>region := None\<rparr>) (req_url exampleGet)) =
     Some \<lparr>protocol = ''https:'', host = ''assets.s3.example.com'', hostname = ''assets.s3.example.com'',
           pathname = ''/file.bin'', search = []\<rparr> \<and>
   tpl (region (exampleConfig\<lparr>region := None\<rparr>)) = ''undefined'' \<and>
   (\<exists>headers body signature.
      snd (fetch exampleRuntime exampleEnv (exampleConfig\<lparr>region := None\<rparr>) exampleGet) =
        [StorageFetch (s3Url (exampleConfig\<lparr>region := None\<rparr>) (req_url exampleGet))
           (req_method exampleGet) headers body] \<and>
      hget ''Authorization'' headers =
        Some (''AWS4-HMAC-SHA256 Credential='' @ tpl (accessKeyId (exampleConfig\<lparr>region := None\<rparr>)) @ ''/''
              @ take 8 (stripDate (Date_toISOString exampleRuntime)) @ ''/''
              @ tpl (region (exampleConfig\<lparr>region := None\<rparr>))
              @ ''/s3/aws4_request, SignedHeaders=host;x-amz-content-sha256;x-amz-date, Signature=''
              @ signature))"
proof (intro conjI)
  show p: "proxied exampleEnv exampleGet"
    by code_simp
  show u: "URL_parse exampleRuntime (s3Url (exampleConfig\<lparr>region := None\<rparr>) (req_url exampleGet)) =
     Some \<lparr>protocol = ''https:'', host = ''assets.s3.example.com'', hostname = ''assets.s3.example.com'',
           pathname = ''/file.bin'', search = []\<rparr>"
    by code_simp
  show "tpl (region (exampleConfig\<lparr>region := None\<rparr>)) = ''undefined''"
    by simp
  show "\<exists>headers body signature.
      snd (fetch exampleRuntime exampleEnv (exampleConfig\<lparr>region := None\<rparr>) exampleGet) =
        [StorageFetch (s3Url (exampleConfig\<lparr>region := None\<rparr>) (req_url exampleGet))
           (req_method exampleGet) headers body] \<and>
      hget ''Authorization'' headers =
        Some (''AWS4-HMAC-SHA256 Credential='' @ tpl (accessKeyId (exampleConfig\<lparr>region := None\<rparr>)) @ ''/''
              @ take 8 (stripDate (Date_toISOString exampleRuntime)) @ ''/''
              @ tpl (region (exampleConfig\<lparr>region := None\<rparr>))
              @ ''/s3/aws4_request, SignedHeaders=host;x-amz-content-sha256;x-amz-date, Signature=''
              @ signature)"
    by (rule missing_credentials_are_signed [OF p u])
qed

text \<open>
  Where the claim as stated fails: the configuration lacks the region, nothing refuses to
  start or to sign, and the request goes to storage with \<open>undefined\<close> in the credential
  scope.
\<close>

theorem missing_credentials_counterexample:
  "region (exampleConfig\<lparr>region := None\<rparr>) = None \<and>
   fetch exampleRuntime exampleEnv (exampleConfig\<lparr>region := None\<rparr>)
     (exampleRequest ''GET'' ''/file.bin'' [] []) =
     (Inr \<lparr>resp_status = 404,
           resp_headers =
             [(''access-control-allow-origin'', ''*''),
              (''cache-control'', ''public, max-age=300, s-maxage=31536000, immutable''),
              (''Accept-Ranges'', ''bytes''),
              (''Access-Control-Allow-Methods'', ''GET, HEAD, OPTIONS''),
              (''Access-Control-Allow-Headers'', ''Content-Type, Range'')],
           resp_body = BText ''NoSuchKey''\<rparr>,
      [StorageFetch ''https://assets.s3.example.com/file.bin'' ''GET''
         [(''Host'', ''assets.s3.example.com''),
          (''x-amz-date'', ''20240102T030405Z''), (''x-amz-content-sha256'', ''e3b0''),
          (''Authorization'',
           ''AWS4-HMAC-SHA256 Credential=AKIDEXAMPLE/20240102/undefined/s3/aws4_request, SignedHeaders=host;x-amz-content-sha256;x-amz-date, Signature=5d67'')]
         None])"
  by code_simp

end
